theory Spec2Isabelle
  imports Complex_Main "HOL-Library.Word"
begin

section \<open>JavaScript values handled by the error classifier\<close>

text \<open>
  \<^verbatim>\<open>processError(error: unknown)\<close> inspects a value of any shape, so the classifier is
  modelled over untyped JavaScript values. An object is its class (which prototype chain
  it has) and its own properties as an association list, the first binding of a key being
  the one read. A number inside such a value is an integer from \<open>- 2 ^ 53\<close> to
  \<open>2 ^ 53 - 1\<close>, a 54-bit word read as a signed integer: every one of them is a double and
  prints in plain decimal notation, and the classifier only compares them. Fractions, NaN
  and the infinities, and arrays, functions, symbols and proxies are outside the model.
\<close>

datatype jsclass = PlainObject | ErrorObject | EnhancedErrorObject

datatype jsval =
    JUndefined
  | JNull
  | JBool bool
  | JNum "54 word"
  | JStr string
  | JObj jsclass "(string \<times> jsval) list"

text \<open>The only exception the language runtime itself raises in this code.\<close>

datatype jsthrow = TypeError

fun truthy :: "jsval \<Rightarrow> bool" where
  "truthy JUndefined = False"
| "truthy JNull = False"
| "truthy (JBool b) = b"
| "truthy (JNum n) = (n \<noteq> 0)"
| "truthy (JStr s) = (s \<noteq> [])"
| "truthy (JObj c ps) = True"

text \<open>\<^verbatim>\<open>a || b\<close> on values.\<close>

definition js_or :: "jsval \<Rightarrow> jsval \<Rightarrow> jsval" where
  "js_or a b = (if truthy a then a else b)"

text \<open>
  Data properties that the prototype chain of a class contributes to \<^verbatim>\<open>key in obj\<close>:
  \<^verbatim>\<open>Error.prototype\<close> carries \<^verbatim>\<open>message\<close> (the empty string) and \<^verbatim>\<open>name\<close>. The
  methods of \<^verbatim>\<open>Object.prototype\<close> are listed too, although the classifier never asks
  for them.
\<close>

definition object_prototype_keys :: "string list" where
  "object_prototype_keys =
     [''constructor'', ''hasOwnProperty'', ''isPrototypeOf'', ''propertyIsEnumerable'',
      ''toLocaleString'', ''toString'', ''valueOf'', ''__proto__'']"

fun prototype_keys :: "jsclass \<Rightarrow> string list" where
  "prototype_keys PlainObject = object_prototype_keys"
| "prototype_keys ErrorObject = [''message'', ''name''] @ object_prototype_keys"
| "prototype_keys EnhancedErrorObject =
     [''toAppError'', ''message'', ''name''] @ object_prototype_keys"

text \<open>\<^verbatim>\<open>key in obj\<close> for an object of class \<open>c\<close> with own properties \<open>ps\<close>.\<close>

definition has_property :: "jsclass \<Rightarrow> (string \<times> jsval) list \<Rightarrow> string \<Rightarrow> bool" where
  "has_property c ps k = (map_of ps k \<noteq> None \<or> k \<in> set (prototype_keys c))"

text \<open>
  \<^verbatim>\<open>obj.key\<close> for the data keys the classifier reads: an own property, else the
  inherited \<^verbatim>\<open>message\<close> or \<^verbatim>\<open>name\<close> of an Error, else \<^verbatim>\<open>undefined\<close>.
\<close>

definition get_property :: "jsclass \<Rightarrow> (string \<times> jsval) list \<Rightarrow> string \<Rightarrow> jsval" where
  "get_property c ps k =
     (case map_of ps k of
        Some v \<Rightarrow> v
      | None \<Rightarrow>
          if c \<noteq> PlainObject \<and> k = ''message'' then JStr ''''
          else if c \<noteq> PlainObject \<and> k = ''name'' then JStr ''Error''
          else JUndefined)"

text \<open>\<^verbatim>\<open>s.includes(pat)\<close> on strings: \<open>pat\<close> occurs in \<open>s\<close> as a contiguous block.\<close>

fun starts_with :: "string \<Rightarrow> string \<Rightarrow> bool" where
  "starts_with s [] = True"
| "starts_with [] (p # ps) = False"
| "starts_with (c # cs) (p # ps) = (c = p \<and> starts_with cs ps)"

fun str_includes :: "string \<Rightarrow> string \<Rightarrow> bool" where
  "str_includes [] pat = (pat = [])"
| "str_includes (c # cs) pat = (starts_with (c # cs) pat \<or> str_includes cs pat)"

text \<open>
  \<^verbatim>\<open>v.includes(pat)\<close> on an arbitrary value: reading a property of \<^verbatim>\<open>undefined\<close> or
  \<^verbatim>\<open>null\<close> throws, and on a boolean, a number or an object of the model
  \<^verbatim>\<open>includes\<close> is not a function, which throws as well.
\<close>

fun js_includes :: "jsval \<Rightarrow> string \<Rightarrow> jsthrow + bool" where
  "js_includes (JStr s) pat = Inr (str_includes s pat)"
| "js_includes v pat = Inl TypeError"

text \<open>
  Decimal notation of an integer, as \<^verbatim>\<open>String(n)\<close> prints every integer below
  \<open>10 ^ 21\<close> in magnitude, hence every number of the model.
\<close>

function decimal :: "nat \<Rightarrow> string" where
  "decimal n = (if n < 10 then [''0123456789'' ! n]
                else decimal (n div 10) @ [''0123456789'' ! (n mod 10)])"
  by pat_completeness auto
termination
  by (relation "measure id") auto

definition Number_toString :: "54 word \<Rightarrow> string" where
  "Number_toString n =
     (if sint n < 0 then CHR ''-'' # decimal (nat (- sint n)) else decimal (nat (sint n)))"

text \<open>
  \<^verbatim>\<open>String(v)\<close>. For an object the conversion calls its \<^verbatim>\<open>toString\<close>: an own
  \<^verbatim>\<open>toString\<close> property of the model is data, not a function, and then neither it nor
  \<^verbatim>\<open>valueOf\<close> yields a primitive, so the conversion throws. Otherwise a plain object
  prints as \<^verbatim>\<open>[object Object]\<close> and an Error as its name and message.
\<close>

definition Error_toString :: "jsthrow + string \<Rightarrow> jsthrow + string \<Rightarrow> jsthrow + string" where
  "Error_toString name msg =
     (case name of Inl t \<Rightarrow> Inl t
      | Inr n \<Rightarrow> (case msg of Inl t \<Rightarrow> Inl t
          | Inr m \<Rightarrow> Inr (if n = [] then m else if m = [] then n else n @ '': '' @ m)))"

fun js_String :: "jsval \<Rightarrow> jsthrow + string"
  and String_of_property :: "(string \<times> jsval) list \<Rightarrow> string \<Rightarrow> string \<Rightarrow> jsthrow + string" where
  "js_String JUndefined = Inr ''undefined''"
| "js_String JNull = Inr ''null''"
| "js_String (JBool b) = Inr (if b then ''true'' else ''false'')"
| "js_String (JNum n) = Inr (Number_toString n)"
| "js_String (JStr s) = Inr s"
| "js_String (JObj c ps) =
     (if map_of ps ''toString'' \<noteq> None then Inl TypeError
      else if c = PlainObject then Inr ''[object Object]''
      else Error_toString (String_of_property ps ''name'' ''Error'')
                          (String_of_property ps ''message'' ''''))"
| "String_of_property [] k d = Inr d"
| "String_of_property ((k', v) # ps) k d =
     (if k' = k then (if v = JUndefined then Inr d else js_String v)
      else String_of_property ps k d)"

section \<open>Error taxonomy\<close>

text \<open>The enum \<^verbatim>\<open>ErrorType\<close>; at run time each member is the string of its name.\<close>

datatype ErrorType =
    API_KEY_MISSING
  | API_KEY_INVALID
  | NETWORK_ERROR
  | API_RATE_LIMIT
  | API_CONTENT_POLICY
  | API_GENERAL_ERROR
  | PDF_GENERATION_ERROR
  | VALIDATION_ERROR
  | UNKNOWN_ERROR

fun ErrorType_string :: "ErrorType \<Rightarrow> string" where
  "ErrorType_string API_KEY_MISSING = ''API_KEY_MISSING''"
| "ErrorType_string API_KEY_INVALID = ''API_KEY_INVALID''"
| "ErrorType_string NETWORK_ERROR = ''NETWORK_ERROR''"
| "ErrorType_string API_RATE_LIMIT = ''API_RATE_LIMIT''"
| "ErrorType_string API_CONTENT_POLICY = ''API_CONTENT_POLICY''"
| "ErrorType_string API_GENERAL_ERROR = ''API_GENERAL_ERROR''"
| "ErrorType_string PDF_GENERATION_ERROR = ''PDF_GENERATION_ERROR''"
| "ErrorType_string VALIDATION_ERROR = ''VALIDATION_ERROR''"
| "ErrorType_string UNKNOWN_ERROR = ''UNKNOWN_ERROR''"

definition ErrorType_value :: "ErrorType \<Rightarrow> jsval" where
  "ErrorType_value t = JStr (ErrorType_string t)"

text \<open>
  The interface \<^verbatim>\<open>AppError\<close>. Its fields hold whatever the object held: an object that
  only looks like an AppError is passed through unchecked, so the fields are values, and
  an absent optional field is \<^verbatim>\<open>undefined\<close>.
\<close>

record AppError =
  type :: jsval
  message :: jsval
  details :: jsval
  code :: jsval
  retryable :: jsval

section \<open>The error classifier\<close>

text \<open>
  \<^verbatim>\<open>EnhancedError.toAppError()\<close>, and the reading of an object that is returned as an
  AppError unchanged: both expose the five fields of the object.
\<close>

definition toAppError :: "jsclass \<Rightarrow> (string \<times> jsval) list \<Rightarrow> AppError" where
  "toAppError c this =
     \<lparr>type = get_property c this ''type'',
      message = get_property c this ''message'',
      details = get_property c this ''details'',
      code = get_property c this ''code'',
      retryable = get_property c this ''retryable''\<rparr>"

text \<open>
  The type guards. \<^verbatim>\<open>typeof error === 'object' && error !== null\<close> holds of the objects
  of the model only; the guards look at the presence of keys, never at what they hold.
\<close>

definition isAppError :: "jsval \<Rightarrow> bool" where
  "isAppError v =
     (case v of
        JObj c ps \<Rightarrow>
          has_property c ps ''type'' \<and> has_property c ps ''message''
          \<and> has_property c ps ''retryable''
      | _ \<Rightarrow> False)"

definition isApiResponse :: "jsval \<Rightarrow> bool" where
  "isApiResponse v = (case v of JObj c ps \<Rightarrow> has_property c ps ''success'' | _ \<Rightarrow> False)"

definition instanceof_EnhancedError :: "jsval \<Rightarrow> bool" where
  "instanceof_EnhancedError v = (case v of JObj c ps \<Rightarrow> c = EnhancedErrorObject | _ \<Rightarrow> False)"

definition instanceof_Error :: "jsval \<Rightarrow> bool" where
  "instanceof_Error v = (case v of JObj c ps \<Rightarrow> c \<noteq> PlainObject | _ \<Rightarrow> False)"

definition new_AppError :: "ErrorType \<Rightarrow> jsval \<Rightarrow> jsval \<Rightarrow> jsval \<Rightarrow> bool \<Rightarrow> AppError" where
  "new_AppError t m d c r =
     \<lparr>type = ErrorType_value t, message = m, details = d, code = c, retryable = JBool r\<rparr>"

text \<open>
  \<^verbatim>\<open>processApiResponseError\<close>: the \<^verbatim>\<open>switch\<close> compares the status code with
  \<^verbatim>\<open>===\<close>; the cases 401 and 400 call \<^verbatim>\<open>message.includes\<close>, the others do not
  touch the message.
\<close>

definition processApiResponseError :: "jsclass \<Rightarrow> (string \<times> jsval) list \<Rightarrow> jsthrow + AppError" where
  "processApiResponseError c response =
     (let statusCode = get_property c response ''statusCode'';
          message = js_or (get_property c response ''error'') (JStr ''Unknown API error'');
          code = js_or statusCode (JNum 500)
      in if statusCode = JNum 401 then
           (case js_includes message ''API key'' of
              Inl t \<Rightarrow> Inl t
            | Inr b \<Rightarrow>
                Inr (new_AppError (if b then API_KEY_INVALID else API_KEY_MISSING)
                       message JUndefined code False))
         else if statusCode = JNum 429 then
           Inr (new_AppError API_RATE_LIMIT message JUndefined code True)
         else if statusCode = JNum 400 then
           (case js_includes message ''content policy'' of
              Inl t \<Rightarrow> Inl t
            | Inr b \<Rightarrow>
                Inr (new_AppError (if b then API_CONTENT_POLICY else VALIDATION_ERROR)
                       message JUndefined code False))
         else if statusCode = JNum 0 \<or> statusCode = JNum 408 then
           Inr (new_AppError NETWORK_ERROR message JUndefined code True)
         else
           Inr (new_AppError API_GENERAL_ERROR message JUndefined code True))"

text \<open>
  \<^verbatim>\<open>processJavaScriptError\<close>: \<^verbatim>\<open>a || b\<close> evaluates \<open>b\<close> only when \<open>a\<close> is false, so
  each \<^verbatim>\<open>includes\<close> is called in turn.
\<close>

definition processJavaScriptError :: "jsclass \<Rightarrow> (string \<times> jsval) list \<Rightarrow> jsthrow + AppError" where
  "processJavaScriptError c error =
     (let message = get_property c error ''message'' in
      case js_includes message ''fetch'' of
        Inl t \<Rightarrow> Inl t
      | Inr has_fetch \<Rightarrow>
          (case (if has_fetch then Inr True else js_includes message ''network'') of
             Inl t \<Rightarrow> Inl t
           | Inr is_network \<Rightarrow>
               if is_network then
                 Inr (new_AppError NETWORK_ERROR (JStr ''Network connection failed'')
                        message JUndefined True)
               else
                 (case js_includes message ''validation'' of
                    Inl t \<Rightarrow> Inl t
                  | Inr has_validation \<Rightarrow>
                      (case (if has_validation then Inr True
                             else js_includes message ''required'') of
                         Inl t \<Rightarrow> Inl t
                       | Inr is_validation \<Rightarrow>
                           if is_validation then
                             Inr (new_AppError VALIDATION_ERROR message JUndefined JUndefined
                                    False)
                           else
                             Inr (new_AppError UNKNOWN_ERROR
                                    (js_or message (JStr ''An unexpected error occurred''))
                                    (get_property c error ''stack'') JUndefined True)))))"

text \<open>The last branch of \<^verbatim>\<open>processError\<close>: \<^verbatim>\<open>details: String(error)\<close>.\<close>

definition unknown_AppError :: "jsval \<Rightarrow> jsthrow + AppError" where
  "unknown_AppError v =
     (case js_String v of
        Inl t \<Rightarrow> Inl t
      | Inr s \<Rightarrow>
          Inr (new_AppError UNKNOWN_ERROR (JStr ''An unexpected error occurred'') (JStr s)
                 JUndefined True))"

text \<open>
  \<^verbatim>\<open>processError\<close>, branch by branch in the order of the source. \<open>Inl TypeError\<close> is the
  exception that leaves the function.
\<close>

definition processError :: "jsval \<Rightarrow> jsthrow + AppError" where
  "processError v =
     (case v of
        JObj c ps \<Rightarrow>
          if instanceof_EnhancedError v then Inr (toAppError c ps)
          else if isAppError v then Inr (toAppError c ps)
          else if isApiResponse v \<and> \<not> truthy (get_property c ps ''success'') then
            processApiResponseError c ps
          else if instanceof_Error v then processJavaScriptError c ps
          else unknown_AppError v
      | _ \<Rightarrow> unknown_AppError v)"

section \<open>Numbers of the retry policy\<close>

text \<open>
  \<^verbatim>\<open>baseDelay\<close>, \<^verbatim>\<open>backoffMultiplier\<close> and the delays computed from them are IEEE 754
  doubles. \<open>Finite r\<close> is the double with the real value \<open>r\<close> (the sign of zero is not
  kept); a product is the exact product rounded to the nearest double, ties to the even
  significand, and a result of magnitude \<open>2 ^ 1024\<close> or more after rounding is an infinity.
\<close>

datatype number = Finite real | PosInfinity | NegInfinity | NaN

definition round_to_even :: "real \<Rightarrow> int" where
  "round_to_even y =
     (let f = \<lfloor>y\<rfloor> in
      if y - of_int f < 1 / 2 then f
      else if 1 / 2 < y - of_int f then f + 1
      else if even f then f else f + 1)"

text \<open>
  The exponent of the unit in the last place of the double nearest to \<open>x \<noteq> 0\<close>: 52 below
  the binary exponent of \<open>x\<close>, which for subnormal numbers is held at \<open>- 1022\<close>.
\<close>

definition ulp_exponent :: "real \<Rightarrow> int" where
  "ulp_exponent x = max \<lfloor>log 2 \<bar>x\<bar>\<rfloor> (- 1022) - 52"

definition double_of_real :: "real \<Rightarrow> number" where
  "double_of_real x =
     (if x = 0 then Finite 0
      else
        (let u = 2 powi (ulp_exponent x);
             r = of_int (round_to_even (x / u)) * u
         in if 2 ^ 1024 \<le> \<bar>r\<bar> then (if 0 < x then PosInfinity else NegInfinity)
            else Finite r))"

text \<open>A number of the model is a value of the language when its real value is a double.\<close>

fun is_number :: "number \<Rightarrow> bool" where
  "is_number (Finite x) = (double_of_real x = Finite x)"
| "is_number PosInfinity = True"
| "is_number NegInfinity = True"
| "is_number NaN = True"

text \<open>\<^verbatim>\<open>a * b\<close> on numbers.\<close>

fun number_times :: "number \<Rightarrow> number \<Rightarrow> number" where
  "number_times (Finite x) (Finite y) = double_of_real (x * y)"
| "number_times NaN b = NaN"
| "number_times a NaN = NaN"
| "number_times (Finite x) PosInfinity =
     (if x = 0 then NaN else if 0 < x then PosInfinity else NegInfinity)"
| "number_times (Finite x) NegInfinity =
     (if x = 0 then NaN else if 0 < x then NegInfinity else PosInfinity)"
| "number_times PosInfinity (Finite y) =
     (if y = 0 then NaN else if 0 < y then PosInfinity else NegInfinity)"
| "number_times NegInfinity (Finite y) =
     (if y = 0 then NaN else if 0 < y then NegInfinity else PosInfinity)"
| "number_times PosInfinity PosInfinity = PosInfinity"
| "number_times PosInfinity NegInfinity = NegInfinity"
| "number_times NegInfinity PosInfinity = NegInfinity"
| "number_times NegInfinity NegInfinity = PosInfinity"

text \<open>Truthiness of a number: zero and NaN are falsy.\<close>

fun number_truthy :: "number \<Rightarrow> bool" where
  "number_truthy (Finite x) = (x \<noteq> 0)"
| "number_truthy NaN = False"
| "number_truthy PosInfinity = True"
| "number_truthy NegInfinity = True"

text \<open>
  \<^verbatim>\<open>Math.pow(x, k)\<close> for an integer \<open>k\<close>. The language fixes the result 1 for the
  exponent 0, whatever \<open>x\<close> is, and leaves the precision of the other results to the
  implementation; what the runtime returns for a non-zero exponent is therefore a
  parameter \<open>pow\<close> of every definition that computes a delay.
\<close>

type_synonym runtime_pow = "number \<Rightarrow> int \<Rightarrow> number"

definition Math_pow :: "runtime_pow \<Rightarrow> number \<Rightarrow> int \<Rightarrow> number" where
  "Math_pow pow x k = (if k = 0 then Finite 1 else pow x k)"

text \<open>
  One possible runtime, used where an example needs a concrete one: the exact power of a
  finite non-zero base rounded to the nearest double, and the values the language
  prescribes for the other bases.
\<close>

fun correctly_rounded_pow :: runtime_pow where
  "correctly_rounded_pow NaN k = NaN"
| "correctly_rounded_pow PosInfinity k = (if 0 < k then PosInfinity else Finite 0)"
| "correctly_rounded_pow NegInfinity k =
     (if 0 < k then (if odd k then NegInfinity else PosInfinity) else Finite 0)"
| "correctly_rounded_pow (Finite x) k =
     (if x = 0 then (if 0 < k then Finite 0 else PosInfinity)
      else double_of_real (x powi k))"

section \<open>The enhanced error\<close>

text \<open>
  \<^verbatim>\<open>new EnhancedError(appError)\<close> copies the fields and hands \<^verbatim>\<open>appError.message\<close> to
  the constructor of \<^verbatim>\<open>Error\<close>, which converts a message other than \<^verbatim>\<open>undefined\<close>
  to a string and leaves the inherited empty message otherwise. The instance is
  represented by what its \<^verbatim>\<open>toAppError()\<close> returns (the timestamp is left out).
\<close>

definition new_EnhancedError :: "AppError \<Rightarrow> jsthrow + AppError" where
  "new_EnhancedError appError =
     (if message appError = JUndefined then Inr (appError\<lparr>message := JStr ''''\<rparr>)
      else
        (case js_String (message appError) of
           Inl t \<Rightarrow> Inl t
         | Inr s \<Rightarrow> Inr (appError\<lparr>message := JStr s\<rparr>)))"

section \<open>Operations, promises and observable events\<close>

text \<open>
  The wrapped operation is a closure \<^verbatim>\<open>() => Promise<T>\<close>: its calls are numbered from
  0 and call \<open>k\<close> settles with \<open>operation k\<close>. Every call is taken to settle. What a
  method does to the outside is recorded as a list of events in the order they happen;
  a callback is an observer that returns normally, and it is recorded only when the
  caller supplied it.
\<close>

datatype 'a outcome = Resolves 'a | Rejects jsval

datatype 'a settled =
    Fulfilled 'a
  | Rejected_EnhancedError AppError
  | Rejected_TypeError
  | Rejected_Error string

datatype event =
    Invoke
  | OnRetry int AppError
  | OnMaxAttemptsReached AppError
  | Delay number

text \<open>\<^verbatim>\<open>throw new EnhancedError(appError)\<close>.\<close>

definition throw_EnhancedError :: "AppError \<Rightarrow> 'a settled" where
  "throw_EnhancedError appError =
     (case new_EnhancedError appError of
        Inl t \<Rightarrow> Rejected_TypeError
      | Inr e \<Rightarrow> Rejected_EnhancedError e)"

section \<open>Retry options\<close>

text \<open>
  \<^verbatim>\<open>RetryOptions\<close>: every field is optional. The two callbacks are kept as flags that
  say whether the caller supplied them. Attempt counts are integers; the base delay and
  the multiplier are numbers as above.
\<close>

record RetryOptions =
  opt_maxAttempts :: "int option"
  opt_baseDelay :: "number option"
  opt_backoffMultiplier :: "number option"
  opt_retryableErrors :: "ErrorType list option"
  onRetry :: bool
  onMaxAttemptsReached :: bool

text \<open>\<^verbatim>\<open>Required<Omit<RetryOptions, 'onRetry' | 'onMaxAttemptsReached'>>\<close>.\<close>

record RetryConfig =
  cfg_maxAttempts :: int
  baseDelay :: number
  backoffMultiplier :: number
  retryableErrors :: "ErrorType list"

definition defaultOptions :: RetryConfig where
  "defaultOptions =
     \<lparr>cfg_maxAttempts = 3, baseDelay = Finite 1000, backoffMultiplier = Finite 2,
      retryableErrors = [NETWORK_ERROR, API_RATE_LIMIT, API_GENERAL_ERROR, UNKNOWN_ERROR]\<rparr>"

text \<open>
  \<^verbatim>\<open>{ ...this.defaultOptions, ...options }\<close>: a key present in \<open>options\<close> wins, whatever
  its value, zero included.
\<close>

definition spread_options :: "RetryConfig \<Rightarrow> RetryOptions \<Rightarrow> RetryConfig" where
  "spread_options d options =
     \<lparr>cfg_maxAttempts = (case opt_maxAttempts options of Some n \<Rightarrow> n | None \<Rightarrow> cfg_maxAttempts d),
      baseDelay = (case opt_baseDelay options of Some x \<Rightarrow> x | None \<Rightarrow> baseDelay d),
      backoffMultiplier =
        (case opt_backoffMultiplier options of Some x \<Rightarrow> x | None \<Rightarrow> backoffMultiplier d),
      retryableErrors =
        (case opt_retryableErrors options of Some l \<Rightarrow> l | None \<Rightarrow> retryableErrors d)\<rparr>"

text \<open>
  \<^verbatim>\<open>error.retryable && retryableErrors.includes(error.type)\<close>, used as a condition.
\<close>

definition isRetryableError :: "AppError \<Rightarrow> ErrorType list \<Rightarrow> bool" where
  "isRetryableError error kinds =
     (truthy (retryable error) \<and> type error \<in> set (map ErrorType_value kinds))"

text \<open>
  \<^verbatim>\<open>baseDelay * Math.pow(backoffMultiplier, attempt - 1)\<close>, the same expression in the
  service and in the manager: the power as the runtime returns it, then the product in
  double arithmetic.
\<close>

definition calculateDelay :: "runtime_pow \<Rightarrow> int \<Rightarrow> number \<Rightarrow> number \<Rightarrow> number" where
  "calculateDelay pow attempt base multiplier =
     number_times base (Math_pow pow multiplier (attempt - 1))"

section \<open>The retry service\<close>

text \<open>
  The \<^verbatim>\<open>for\<close> loop of \<^verbatim>\<open>executeWithRetry\<close>, entered with the attempt number, the
  number of calls of the operation made so far and \<^verbatim>\<open>lastError\<close>. After the loop
  \<^verbatim>\<open>new EnhancedError(lastError!)\<close> reads a field of \<^verbatim>\<open>null\<close> when no attempt was made.
\<close>

function attempt_loop ::
  "runtime_pow \<Rightarrow> RetryConfig \<Rightarrow> RetryOptions \<Rightarrow> (nat \<Rightarrow> 'a outcome) \<Rightarrow> int \<Rightarrow> nat
     \<Rightarrow> AppError option \<Rightarrow> event list \<times> 'a settled" where
  "attempt_loop pow config options operation attempt calls lastError =
     (if attempt \<le> cfg_maxAttempts config then
        (case operation calls of
           Resolves x \<Rightarrow> ([Invoke], Fulfilled x)
         | Rejects error \<Rightarrow>
             (case processError error of
                Inl t \<Rightarrow> ([Invoke], Rejected_TypeError)
              | Inr processedError \<Rightarrow>
                  if \<not> isRetryableError processedError (retryableErrors config) then
                    ([Invoke], throw_EnhancedError processedError)
                  else if attempt = cfg_maxAttempts config then
                    (Invoke #
                       (if onMaxAttemptsReached options
                        then [OnMaxAttemptsReached processedError] else []),
                     throw_EnhancedError processedError)
                  else
                    (let delay = calculateDelay pow attempt (baseDelay config)
                                   (backoffMultiplier config);
                         rest = attempt_loop pow config options operation (attempt + 1)
                                  (Suc calls) (Some processedError)
                     in (Invoke #
                           (if onRetry options then [OnRetry attempt processedError] else [])
                           @ [Delay delay] @ fst rest,
                         snd rest))))
      else
        ([], case lastError of
               None \<Rightarrow> Rejected_TypeError
             | Some e \<Rightarrow> throw_EnhancedError e))"
  by pat_completeness auto
termination
  by (relation "measure (\<lambda>(pow, config, options, operation, attempt, calls, lastError).
                  nat (cfg_maxAttempts config + 1 - attempt))") auto

definition executeWithRetry ::
  "runtime_pow \<Rightarrow> (nat \<Rightarrow> 'a outcome) \<Rightarrow> RetryOptions \<Rightarrow> event list \<times> 'a settled" where
  "executeWithRetry pow operation options =
     attempt_loop pow (spread_options defaultOptions options) options operation 1 0 None"

section \<open>The retry manager\<close>

record RetryState =
  attempt :: int
  maxAttempts :: int
  lastError :: "AppError option"
  isRetrying :: bool
  nextRetryDelay :: number

text \<open>
  The fields of a \<^verbatim>\<open>RetryManager\<close>. The operation it wraps is not stored here: each
  method that calls it is given the outcome of that call.
\<close>

record RetryManager =
  options :: RetryConfig
  retryCallbacks_onRetry :: bool
  retryCallbacks_onMaxAttemptsReached :: bool
  state :: RetryState

text \<open>
  \<^verbatim>\<open>x || d\<close> for an optional option value: absent, \<^verbatim>\<open>undefined\<close> and a falsy number
  (zero, and NaN for a delay or multiplier) give \<open>d\<close>.
\<close>

definition int_or :: "int option \<Rightarrow> int \<Rightarrow> int" where
  "int_or x d = (case x of Some v \<Rightarrow> if v \<noteq> 0 then v else d | None \<Rightarrow> d)"

definition number_or :: "number option \<Rightarrow> number \<Rightarrow> number" where
  "number_or x d = (case x of Some v \<Rightarrow> if number_truthy v then v else d | None \<Rightarrow> d)"

text \<open>The constructor. An array is truthy even when empty.\<close>

definition new_RetryManager :: "RetryOptions \<Rightarrow> RetryManager" where
  "new_RetryManager opts =
     (let this_options =
            \<lparr>cfg_maxAttempts = int_or (opt_maxAttempts opts) 3,
             baseDelay = number_or (opt_baseDelay opts) (Finite 1000),
             backoffMultiplier = number_or (opt_backoffMultiplier opts) (Finite 2),
             retryableErrors =
               (case opt_retryableErrors opts of
                  Some l \<Rightarrow> l
                | None \<Rightarrow> [NETWORK_ERROR, API_RATE_LIMIT, API_GENERAL_ERROR, UNKNOWN_ERROR])\<rparr>
      in \<lparr>options = this_options,
          retryCallbacks_onRetry = onRetry opts,
          retryCallbacks_onMaxAttemptsReached = onMaxAttemptsReached opts,
          state =
            \<lparr>attempt = 0,
             maxAttempts = cfg_maxAttempts this_options,
             lastError = None,
             isRetrying = False,
             nextRetryDelay = baseDelay this_options\<rparr>\<rparr>)"

text \<open>
  \<^verbatim>\<open>RetryService.createRetryManager\<close> spreads the options over the defaults before it
  calls the constructor.
\<close>

definition createRetryManager :: "RetryOptions \<Rightarrow> RetryManager" where
  "createRetryManager opts =
     (let merged = spread_options defaultOptions opts
      in new_RetryManager
           \<lparr>opt_maxAttempts = Some (cfg_maxAttempts merged),
            opt_baseDelay = Some (baseDelay merged),
            opt_backoffMultiplier = Some (backoffMultiplier merged),
            opt_retryableErrors = Some (retryableErrors merged),
            onRetry = onRetry opts,
            onMaxAttemptsReached = onMaxAttemptsReached opts\<rparr>)"

definition canRetry :: "RetryManager \<Rightarrow> bool" where
  "canRetry m =
     (case lastError (state m) of
        None \<Rightarrow> False
      | Some e \<Rightarrow>
          attempt (state m) < maxAttempts (state m)
          \<and> isRetryableError e (retryableErrors (options m))
          \<and> \<not> isRetrying (state m))"

definition getState :: "RetryManager \<Rightarrow> RetryState" where
  "getState m = state m"

definition reset :: "RetryManager \<Rightarrow> RetryManager" where
  "reset m =
     m\<lparr>state :=
         \<lparr>attempt = 0,
          maxAttempts = cfg_maxAttempts (options m),
          lastError = None,
          isRetrying = False,
          nextRetryDelay = baseDelay (options m)\<rparr>\<rparr>"

text \<open>
  An \<^verbatim>\<open>async\<close> method runs up to its \<^verbatim>\<open>await\<close> in one piece and resumes when the
  promise settles; other methods of the manager can run in between. Each method is
  therefore two steps: the part before the \<^verbatim>\<open>await\<close>, which calls the operation, and
  the part after it, which is given the outcome.
\<close>

definition execute_begin :: "RetryManager \<Rightarrow> RetryManager \<times> event list" where
  "execute_begin m =
     (m\<lparr>state := (state m)\<lparr>attempt := 1, isRetrying := False, lastError := None\<rparr>\<rparr>,
      [Invoke])"

definition execute_settle :: "'a outcome \<Rightarrow> RetryManager \<Rightarrow> RetryManager \<times> event list \<times> 'a settled" where
  "execute_settle out m =
     (case out of
        Resolves x \<Rightarrow> (m, [], Fulfilled x)
      | Rejects error \<Rightarrow>
          (case processError error of
             Inl t \<Rightarrow> (m, [], Rejected_TypeError)
           | Inr processedError \<Rightarrow>
               (m\<lparr>state := (state m)\<lparr>lastError := Some processedError\<rparr>\<rparr>, [],
                throw_EnhancedError processedError)))"

definition cannot_retry :: string where
  "cannot_retry = ''Cannot retry: operation is not retryable or max attempts reached''"

text \<open>
  The part of \<^verbatim>\<open>retry()\<close> before the \<^verbatim>\<open>await\<close>: \<open>Inl\<close> is the rejection that ends the
  method at once. \<^verbatim>\<open>this.state.lastError!\<close> is not null when \<^verbatim>\<open>canRetry()\<close> holds.
\<close>

definition retry_begin :: "runtime_pow \<Rightarrow> RetryManager \<Rightarrow> string + RetryManager \<times> event list" where
  "retry_begin pow m =
     (if \<not> canRetry m then Inl cannot_retry
      else
        (let a = attempt (state m) + 1;
             d = calculateDelay pow a (baseDelay (options m)) (backoffMultiplier (options m))
         in Inr (m\<lparr>state := (state m)\<lparr>attempt := a, isRetrying := True, nextRetryDelay := d\<rparr>\<rparr>,
                 (case lastError (state m) of
                    Some e \<Rightarrow> if retryCallbacks_onRetry m then [OnRetry a e] else []
                  | None \<Rightarrow> [])
                 @ [Invoke])))"

definition retry_settle :: "'a outcome \<Rightarrow> RetryManager \<Rightarrow> RetryManager \<times> event list \<times> 'a settled" where
  "retry_settle out m =
     (case out of
        Resolves result \<Rightarrow>
          (m\<lparr>state := (state m)\<lparr>isRetrying := False, lastError := None\<rparr>\<rparr>, [], Fulfilled result)
      | Rejects error \<Rightarrow>
          (case processError error of
             Inl t \<Rightarrow> (m, [], Rejected_TypeError)
           | Inr processedError \<Rightarrow>
               (m\<lparr>state := (state m)\<lparr>lastError := Some processedError, isRetrying := False\<rparr>\<rparr>,
                (if attempt (state m) \<ge> maxAttempts (state m)
                    \<and> retryCallbacks_onMaxAttemptsReached m
                 then [OnMaxAttemptsReached processedError] else []),
                throw_EnhancedError processedError)))"

text \<open>
  The whole methods, for a call that nothing interrupts: the manager afterwards, the
  events and how the returned promise settles.
\<close>

definition execute :: "'a outcome \<Rightarrow> RetryManager \<Rightarrow> RetryManager \<times> event list \<times> 'a settled" where
  "execute out m =
     (let (m1, evs1) = execute_begin m;
          (m2, evs2, r) = execute_settle out m1
      in (m2, evs1 @ evs2, r))"

definition retry ::
  "runtime_pow \<Rightarrow> 'a outcome \<Rightarrow> RetryManager \<Rightarrow> RetryManager \<times> event list \<times> 'a settled" where
  "retry pow out m =
     (case retry_begin pow m of
        Inl msg \<Rightarrow> (m, [], Rejected_Error msg)
      | Inr (m1, evs1) \<Rightarrow>
          (let (m2, evs2, r) = retry_settle out m1 in (m2, evs1 @ evs2, r)))"

section \<open>A manager in use\<close>

text \<open>
  A manager together with the calls of the operation that have not settled yet, counted
  by the method that made them. The program acts on it by calling \<^verbatim>\<open>execute()\<close>,
  \<^verbatim>\<open>retry()\<close> or \<^verbatim>\<open>reset()\<close>, and the runtime by settling a pending call, which resumes
  the method that awaits it; nothing can settle when nothing is pending. A \<^verbatim>\<open>retry()\<close>
  that is rejected changes nothing.
\<close>

record manager_in_use =
  manager :: RetryManager
  executes_in_flight :: nat
  retries_in_flight :: nat

datatype call =
    Call_execute
  | Call_retry
  | Call_reset
  | Settle_execute "jsval outcome"
  | Settle_retry "jsval outcome"

definition start :: "RetryOptions \<Rightarrow> manager_in_use" where
  "start opts = \<lparr>manager = new_RetryManager opts, executes_in_flight = 0, retries_in_flight = 0\<rparr>"

fun step :: "runtime_pow \<Rightarrow> call \<Rightarrow> manager_in_use \<Rightarrow> manager_in_use option" where
  "step pow Call_execute s =
     Some (s\<lparr>manager := fst (execute_begin (manager s)),
             executes_in_flight := Suc (executes_in_flight s)\<rparr>)"
| "step pow Call_retry s =
     (case retry_begin pow (manager s) of
        Inl msg \<Rightarrow> Some s
      | Inr (m', evs) \<Rightarrow> Some (s\<lparr>manager := m', retries_in_flight := Suc (retries_in_flight s)\<rparr>))"
| "step pow Call_reset s = Some (s\<lparr>manager := reset (manager s)\<rparr>)"
| "step pow (Settle_execute out) s =
     (if executes_in_flight s = 0 then None
      else Some (s\<lparr>manager := fst (execute_settle out (manager s)),
                   executes_in_flight := executes_in_flight s - 1\<rparr>))"
| "step pow (Settle_retry out) s =
     (if retries_in_flight s = 0 then None
      else Some (s\<lparr>manager := fst (retry_settle out (manager s)),
                   retries_in_flight := retries_in_flight s - 1\<rparr>))"

fun run :: "runtime_pow \<Rightarrow> call list \<Rightarrow> manager_in_use \<Rightarrow> manager_in_use option" where
  "run pow [] s = Some s"
| "run pow (c # cs) s = (case step pow c s of None \<Rightarrow> None | Some s' \<Rightarrow> run pow cs s')"

text \<open>
  The states a manager built for \<open>opts\<close> can be in are the results of \<open>run\<close> from
  \<open>start opts\<close>. A sequence of calls waits for its retries when it calls \<^verbatim>\<open>execute()\<close>
  and \<^verbatim>\<open>reset()\<close> only while no retry is in flight.
\<close>

fun waits_for_retries :: "runtime_pow \<Rightarrow> call list \<Rightarrow> manager_in_use \<Rightarrow> bool" where
  "waits_for_retries pow [] s = True"
| "waits_for_retries pow (c # cs) s =
     ((c = Call_execute \<or> c = Call_reset \<longrightarrow> retries_in_flight s = 0)
      \<and> (case step pow c s of None \<Rightarrow> True | Some s' \<Rightarrow> waits_for_retries pow cs s'))"

section \<open>The classifier of the generation service\<close>

text \<open>
  \<^verbatim>\<open>OpenAIService.responseToAppError\<close>, the second place in the repository that turns a
  failed \<^verbatim>\<open>ApiResponse<string>\<close> into an AppError; the response is given by its
  \<^verbatim>\<open>error\<close> and \<^verbatim>\<open>statusCode\<close>.
\<close>

definition responseToAppError :: "string option \<Rightarrow> 54 word option \<Rightarrow> AppError" where
  "responseToAppError err status =
     (let statusCode = (case status of Some n \<Rightarrow> if n \<noteq> 0 then n else 500 | None \<Rightarrow> 500);
          message = (case err of Some e \<Rightarrow> if e \<noteq> [] then e else ''Unknown error''
                     | None \<Rightarrow> ''Unknown error'')
      in if statusCode = 401 then
           new_AppError (if str_includes message ''API key'' then API_KEY_INVALID
                         else API_KEY_MISSING)
             (JStr message) JUndefined (JNum statusCode) False
         else if statusCode = 429 then
           new_AppError API_RATE_LIMIT (JStr message) JUndefined (JNum statusCode) True
         else if statusCode = 400 then
           new_AppError (if str_includes message ''Content policy violation''
                         then API_CONTENT_POLICY else VALIDATION_ERROR)
             (JStr message) JUndefined (JNum statusCode) False
         else if statusCode = 0 then
           new_AppError NETWORK_ERROR (JStr message) JUndefined (JNum statusCode) True
         else if statusCode = 408 then
           new_AppError NETWORK_ERROR (JStr message) JUndefined (JNum statusCode) True
         else
           new_AppError (if str_includes message ''Network error'' then NETWORK_ERROR
                         else API_GENERAL_ERROR)
             (JStr message) JUndefined (JNum statusCode) True)"

section \<open>Inputs and observations used to state the properties\<close>

text \<open>
  A failed API response as the type \<^verbatim>\<open>ApiResponse\<close> declares it:
  \<^verbatim>\<open>{ success: false, error?: string, statusCode?: number }\<close>.
\<close>

definition api_failure :: "string option \<Rightarrow> 54 word option \<Rightarrow> jsval" where
  "api_failure err status =
     JObj PlainObject
       ((''success'', JBool False)
        # (case err of Some e \<Rightarrow> [(''error'', JStr e)] | None \<Rightarrow> [])
        @ (case status of Some n \<Rightarrow> [(''statusCode'', JNum n)] | None \<Rightarrow> []))"

text \<open>\<^verbatim>\<open>response.error || 'Unknown API error'\<close> for such a response.\<close>

definition api_failure_message :: "string option \<Rightarrow> string" where
  "api_failure_message err =
     (case err of
        Some e \<Rightarrow> if e = [] then ''Unknown API error'' else e
      | None \<Rightarrow> ''Unknown API error'')"

text \<open>An object literal of type \<^verbatim>\<open>AppError\<close> without the optional fields.\<close>

definition app_error :: "ErrorType \<Rightarrow> string \<Rightarrow> bool \<Rightarrow> jsval" where
  "app_error t m r =
     JObj PlainObject
       [(''type'', ErrorType_value t), (''message'', JStr m), (''retryable'', JBool r)]"

text \<open>What a list of events shows: how often the operation was called, the arguments of
  each callback, and each delay together with the number of calls made before it.\<close>

definition invocations :: "event list \<Rightarrow> nat" where
  "invocations evs = length (filter (\<lambda>ev. ev = Invoke) evs)"

definition onRetry_calls :: "event list \<Rightarrow> (int \<times> AppError) list" where
  "onRetry_calls evs =
     concat (map (\<lambda>ev. case ev of OnRetry a e \<Rightarrow> [(a, e)] | _ \<Rightarrow> []) evs)"

definition onMaxAttemptsReached_calls :: "event list \<Rightarrow> AppError list" where
  "onMaxAttemptsReached_calls evs =
     concat (map (\<lambda>ev. case ev of OnMaxAttemptsReached e \<Rightarrow> [e] | _ \<Rightarrow> []) evs)"


text \<open>The default argument \<^verbatim>\<open>options: RetryOptions = {}\<close>.\<close>

definition empty_options :: RetryOptions where
  "empty_options =
     \<lparr>opt_maxAttempts = None, opt_baseDelay = None, opt_backoffMultiplier = None,
      opt_retryableErrors = None, onRetry = False, onMaxAttemptsReached = False\<rparr>"
section \<open>Properties of the classifier\<close>

lemma ErrorType_value_eq [simp]: "ErrorType_value a = ErrorType_value b \<longleftrightarrow> a = b"
  by (cases a; cases b) (simp_all add: ErrorType_value_def)

lemmas classifier_defs =
  processError_def instanceof_EnhancedError_def instanceof_Error_def isAppError_def
  isApiResponse_def has_property_def object_prototype_keys_def get_property_def js_or_def

text \<open>A typed API failure is neither an EnhancedError nor AppError-shaped, so it reaches
  \<^verbatim>\<open>processApiResponseError\<close>.\<close>

lemma api_failure_dispatch:
  "processError (api_failure err status) =
     processApiResponseError PlainObject
       ((''success'', JBool False)
        # (case err of Some e \<Rightarrow> [(''error'', JStr e)] | None \<Rightarrow> [])
        @ (case status of Some n \<Rightarrow> [(''statusCode'', JNum n)] | None \<Rightarrow> []))"
  by (simp add: api_failure_def classifier_defs split: option.splits)

lemma api_failure_fields:
  "get_property PlainObject
       ((''success'', JBool False)
        # (case err of Some e \<Rightarrow> [(''error'', JStr e)] | None \<Rightarrow> [])
        @ (case status of Some n \<Rightarrow> [(''statusCode'', JNum n)] | None \<Rightarrow> [])) ''statusCode''
     = (case status of Some n \<Rightarrow> JNum n | None \<Rightarrow> JUndefined)"
  "js_or (get_property PlainObject
       ((''success'', JBool False)
        # (case err of Some e \<Rightarrow> [(''error'', JStr e)] | None \<Rightarrow> [])
        @ (case status of Some n \<Rightarrow> [(''statusCode'', JNum n)] | None \<Rightarrow> [])) ''error'')
       (JStr ''Unknown API error'')
     = JStr (api_failure_message err)"
  by (simp_all add: get_property_def js_or_def api_failure_message_def split: option.splits)

lemma api_failure_result:
  "processError (api_failure err status) =
     (let m = JStr (api_failure_message err);
          c = (case status of Some n \<Rightarrow> if n = 0 then JNum 500 else JNum n | None \<Rightarrow> JNum 500) in
      if status = Some 401 then
        Inr (new_AppError (if str_includes (api_failure_message err) ''API key''
                           then API_KEY_INVALID else API_KEY_MISSING) m JUndefined c False)
      else if status = Some 429 then Inr (new_AppError API_RATE_LIMIT m JUndefined c True)
      else if status = Some 400 then
        Inr (new_AppError (if str_includes (api_failure_message err) ''content policy''
                           then API_CONTENT_POLICY else VALIDATION_ERROR) m JUndefined c False)
      else if status = Some 0 \<or> status = Some 408 then
        Inr (new_AppError NETWORK_ERROR m JUndefined c True)
      else Inr (new_AppError API_GENERAL_ERROR m JUndefined c True))"
  unfolding api_failure_dispatch processApiResponseError_def api_failure_fields
  by (cases status) (simp_all add: Let_def js_or_def)

text \<open>
  How \<^verbatim>\<open>processError\<close> maps a failed API response: by its status code alone, except
  that 401 and 400 also look for one exact, case-sensitive substring of the message.
\<close>

lemma api_status_mapping:
  "processError (api_failure err (Some 401)) =
     Inr (new_AppError
            (if str_includes (api_failure_message err) ''API key''
             then API_KEY_INVALID else API_KEY_MISSING)
            (JStr (api_failure_message err)) JUndefined (JNum 401) False)
   \<and> processError (api_failure err (Some 429)) =
     Inr (new_AppError API_RATE_LIMIT (JStr (api_failure_message err)) JUndefined (JNum 429) True)
   \<and> processError (api_failure err (Some 400)) =
     Inr (new_AppError
            (if str_includes (api_failure_message err) ''content policy''
             then API_CONTENT_POLICY else VALIDATION_ERROR)
            (JStr (api_failure_message err)) JUndefined (JNum 400) False)
   \<and> processError (api_failure err (Some 0)) =
     Inr (new_AppError NETWORK_ERROR (JStr (api_failure_message err)) JUndefined (JNum 500) True)
   \<and> processError (api_failure err (Some 408)) =
     Inr (new_AppError NETWORK_ERROR (JStr (api_failure_message err)) JUndefined (JNum 408) True)
   \<and> (status \<notin> {Some 401, Some 429, Some 400, Some 0, Some 408} \<longrightarrow>
      processError (api_failure err status) =
        Inr (new_AppError API_GENERAL_ERROR (JStr (api_failure_message err)) JUndefined
               (JNum (case status of Some n \<Rightarrow> n | None \<Rightarrow> 500)) True))"
  by (auto simp add: api_failure_result Let_def split: option.splits)

text \<open>
  Claim C5 at a failing input. For a content-policy violation the generation service
  returns status 400 with the message \<^verbatim>\<open>Content policy violation. Please modify your
  job description and try again.\<close> The message mentions the policy, and
  \<^verbatim>\<open>processError\<close> classifies the response as a validation failure, because it looks for
  \<^verbatim>\<open>content policy\<close> in lower case; \<^verbatim>\<open>OpenAIService.responseToAppError\<close> classifies the
  same response as a content-policy violation. The example of the claim, status 401 with
  \<^verbatim>\<open>Invalid API key\<close>, is classified as the claim says.
\<close>

theorem content_policy_message_misclassified:
  "str_includes ''Content policy violation. Please modify your job description and try again.''
     ''policy''
   \<and> processError
       (api_failure
          (Some ''Content policy violation. Please modify your job description and try again.'')
          (Some 400)) =
     Inr (new_AppError VALIDATION_ERROR
            (JStr ''Content policy violation. Please modify your job description and try again.'')
            JUndefined (JNum 400) False)
   \<and> responseToAppError
       (Some ''Content policy violation. Please modify your job description and try again.'')
       (Some 400) =
     new_AppError API_CONTENT_POLICY
       (JStr ''Content policy violation. Please modify your job description and try again.'')
       JUndefined (JNum 400) False
   \<and> processError (api_failure (Some ''Invalid API key'') (Some 401)) =
     Inr (new_AppError API_KEY_INVALID (JStr ''Invalid API key'') JUndefined (JNum 401) False)"
  by (simp add: api_failure_result api_failure_message_def responseToAppError_def)

subsection \<open>Retryable as a function of the kind\<close>

lemma processApiResponseError_kind:
  assumes "processApiResponseError c ps = Inr e"
  shows "\<exists>k. type e = ErrorType_value k \<and> k \<noteq> PDF_GENERATION_ERROR
           \<and> retryable e =
               JBool (k \<in> {NETWORK_ERROR, API_RATE_LIMIT, API_GENERAL_ERROR, UNKNOWN_ERROR})"
  using assms
  by (auto simp add: processApiResponseError_def Let_def new_AppError_def
           split: if_splits sum.splits)

lemma processJavaScriptError_kind:
  assumes "processJavaScriptError c ps = Inr e"
  shows "\<exists>k. type e = ErrorType_value k \<and> k \<noteq> PDF_GENERATION_ERROR
           \<and> retryable e =
               JBool (k \<in> {NETWORK_ERROR, API_RATE_LIMIT, API_GENERAL_ERROR, UNKNOWN_ERROR})"
  using assms
  by (auto simp add: processJavaScriptError_def Let_def new_AppError_def
           split: if_splits sum.splits)

lemma unknown_AppError_kind:
  assumes "unknown_AppError v = Inr e"
  shows "type e = ErrorType_value UNKNOWN_ERROR \<and> retryable e = JBool True"
  using assms
  by (auto simp add: unknown_AppError_def new_AppError_def split: sum.splits)

lemma processError_cases:
  assumes "processError v = Inr e"
    and "\<not> instanceof_EnhancedError v" and "\<not> isAppError v"
  shows "(\<exists>c ps. processApiResponseError c ps = Inr e)
         \<or> (\<exists>c ps. processJavaScriptError c ps = Inr e)
         \<or> unknown_AppError v = Inr e"
proof (cases v)
  case (JObj c ps)
  show ?thesis
  proof (cases "isApiResponse v \<and> \<not> truthy (get_property c ps ''success'')")
    case True
    with assms JObj have "processApiResponseError c ps = Inr e"
      by (simp add: processError_def)
    then show ?thesis by blast
  next
    case False
    show ?thesis
    proof (cases "instanceof_Error v")
      case True
      with assms JObj False have "processJavaScriptError c ps = Inr e"
        by (auto simp add: processError_def)
      then show ?thesis by blast
    next
      case nonerr: False
      with assms JObj False have "unknown_AppError v = Inr e"
        by (auto simp add: processError_def)
      then show ?thesis by blast
    qed
  qed
qed (use assms in \<open>simp_all add: processError_def\<close>)

text \<open>
  Claim C9, as the code has it. When the classifier itself builds the error, that is for
  every input that is neither an EnhancedError nor already AppError-shaped, the result has
  one of the eight kinds other than \<^verbatim>\<open>PDF_GENERATION_ERROR\<close>, and its retryable flag is
  true exactly for \<^verbatim>\<open>NETWORK_ERROR\<close>, \<^verbatim>\<open>API_RATE_LIMIT\<close>, \<^verbatim>\<open>API_GENERAL_ERROR\<close> and
  \<^verbatim>\<open>UNKNOWN_ERROR\<close>: a function of the kind alone.
\<close>

theorem classified_retryable_by_kind:
  assumes "processError v = Inr e"
    and "\<not> instanceof_EnhancedError v" and "\<not> isAppError v"
  shows "\<exists>k. type e = ErrorType_value k \<and> k \<noteq> PDF_GENERATION_ERROR
           \<and> retryable e =
               JBool (k \<in> {NETWORK_ERROR, API_RATE_LIMIT, API_GENERAL_ERROR, UNKNOWN_ERROR})"
proof -
  from processError_cases [OF assms] consider
      c ps where "processApiResponseError c ps = Inr e"
    | c ps where "processJavaScriptError c ps = Inr e"
    | "unknown_AppError v = Inr e"
    by blast
  then show ?thesis
  proof cases
    case 1 then show ?thesis by (rule processApiResponseError_kind)
  next
    case 2 then show ?thesis by (rule processJavaScriptError_kind)
  next
    case 3
    then have "type e = ErrorType_value UNKNOWN_ERROR \<and> retryable e = JBool True"
      by (rule unknown_AppError_kind)
    then show ?thesis by (intro exI [of _ UNKNOWN_ERROR]) simp
  qed
qed

text \<open>The theorem at a native exception whose message mentions \<^verbatim>\<open>fetch\<close>.\<close>

theorem classified_retryable_by_kind_witness:
  "processError (JObj ErrorObject [(''message'', JStr ''fetch failed'')]) =
     Inr (new_AppError NETWORK_ERROR (JStr ''Network connection failed'') (JStr ''fetch failed'')
            JUndefined True)
   \<and> \<not> instanceof_EnhancedError (JObj ErrorObject [(''message'', JStr ''fetch failed'')])
   \<and> \<not> isAppError (JObj ErrorObject [(''message'', JStr ''fetch failed'')])
   \<and> (\<exists>k. type (new_AppError NETWORK_ERROR (JStr ''Network connection failed'')
                   (JStr ''fetch failed'') JUndefined True) = ErrorType_value k
          \<and> k \<noteq> PDF_GENERATION_ERROR
          \<and> retryable (new_AppError NETWORK_ERROR (JStr ''Network connection failed'')
                   (JStr ''fetch failed'') JUndefined True) =
               JBool (k \<in> {NETWORK_ERROR, API_RATE_LIMIT, API_GENERAL_ERROR, UNKNOWN_ERROR}))"
proof -
  let ?v = "JObj ErrorObject [(''message'', JStr ''fetch failed'')]"
  have 1: "processError ?v =
     Inr (new_AppError NETWORK_ERROR (JStr ''Network connection failed'') (JStr ''fetch failed'')
            JUndefined True)"
    by (simp add: classifier_defs processJavaScriptError_def)
  have 2: "\<not> instanceof_EnhancedError ?v"
    by (simp add: instanceof_EnhancedError_def)
  have 3: "\<not> isAppError ?v"
    by (simp add: isAppError_def has_property_def object_prototype_keys_def)
  from classified_retryable_by_kind [OF 1 2 3] 1 2 3 show ?thesis
    by blast
qed

text \<open>
  Claim C9 as it is worded fails: an AppError-shaped value is returned as it is, so two
  results of the classifier can have the kind \<^verbatim>\<open>NETWORK_ERROR\<close> and different retryable
  flags.
\<close>

theorem retryable_by_kind_counterexample:
  "processError (app_error NETWORK_ERROR ''Network failed'' False) =
     Inr \<lparr>type = ErrorType_value NETWORK_ERROR, message = JStr ''Network failed'',
          details = JUndefined, code = JUndefined, retryable = JBool False\<rparr>
   \<and> processError (JObj ErrorObject [(''message'', JStr ''fetch failed'')]) =
     Inr \<lparr>type = ErrorType_value NETWORK_ERROR, message = JStr ''Network connection failed'',
          details = JStr ''fetch failed'', code = JUndefined, retryable = JBool True\<rparr>"
  by (simp add: app_error_def classifier_defs processJavaScriptError_def new_AppError_def
        toAppError_def)

subsection \<open>Inputs on which the classifier throws\<close>

text \<open>
  Claim C4 at a failing input. The object \<^verbatim>\<open>{success: false, statusCode: 401, error: 42}\<close>
  has the key \<^verbatim>\<open>success\<close>, so it is taken for an API response; its \<^verbatim>\<open>error\<close> is a
  truthy number, \<^verbatim>\<open>message.includes\<close> is not a function, and \<^verbatim>\<open>processError\<close> throws a
  TypeError instead of returning an AppError.
\<close>

theorem processError_throws_TypeError:
  "processError
     (JObj PlainObject
        [(''success'', JBool False), (''statusCode'', JNum 401), (''error'', JNum 42)])
   = Inl TypeError"
  by (simp add: classifier_defs processApiResponseError_def)

text \<open>
  On inputs whose fields have the types that the interfaces declare the classifier
  returns: a failed API response, an AppError literal, a native exception with a string
  as its message, and every primitive value.
\<close>

lemma processError_returns_on_typed_inputs:
  "\<exists>e. processError (api_failure err status) = Inr e"
  "\<exists>e. processError (app_error t m r) = Inr e"
  "\<exists>e. processError (JObj ErrorObject [(''message'', JStr m), (''stack'', JStr st)]) = Inr e"
  "\<exists>e. processError JUndefined = Inr e"
  "\<exists>e. processError JNull = Inr e"
  "\<exists>e. processError (JBool b) = Inr e"
  "\<exists>e. processError (JNum n) = Inr e"
  "\<exists>e. processError (JStr s) = Inr e"
proof -
  show "\<exists>e. processError (api_failure err status) = Inr e"
    by (simp add: api_failure_result Let_def)
qed (simp_all add: app_error_def classifier_defs toAppError_def processJavaScriptError_def
       unknown_AppError_def Let_def)

section \<open>Properties of double arithmetic\<close>

lemma round_to_even_of_int [simp]: "round_to_even (of_int k) = k"
  by (simp add: round_to_even_def)

lemma floor_log2_eq:
  assumes "2 powi e \<le> x" and "x < 2 powi (e + 1)"
  shows "\<lfloor>log 2 x\<rfloor> = e"
proof -
  have pos: "0 < x" using assms(1) by (smt (verit) zero_less_power_int)
  have "2 powr (of_int e) \<le> x" "x < 2 powr (of_int (e + 1))"
    using assms by (simp_all only: powr_real_of_int' [of 2, simplified])
  then have "of_int e \<le> log 2 x" "log 2 x < of_int (e + 1)"
    using pos by (simp_all add: le_log_iff log_less_iff)
  then show ?thesis by (simp add: floor_eq_iff)
qed

text \<open>Rounding a real whose binary exponent is known.\<close>

lemma double_of_real_bracket:
  assumes "2 powi e \<le> \<bar>x\<bar>" and "\<bar>x\<bar> < 2 powi (e + 1)" and "- 1022 \<le> e"
  shows "double_of_real x =
     (let u = 2 powi (e - 52);
          r = of_int (round_to_even (x / u)) * u
      in if 2 ^ 1024 \<le> \<bar>r\<bar> then (if 0 < x then PosInfinity else NegInfinity)
         else Finite r)"
proof -
  have "x \<noteq> 0" using assms(1) by (smt (verit) zero_less_power_int abs_zero)
  moreover have "ulp_exponent x = e - 52"
    using floor_log2_eq [OF assms(1,2)] assms(3) by (simp add: ulp_exponent_def)
  ultimately show ?thesis by (simp add: double_of_real_def)
qed

text \<open>Every integer up to \<open>2 ^ 53\<close> in magnitude is a double.\<close>

lemma double_of_real_of_int:
  assumes "\<bar>n\<bar> \<le> 2 ^ 53"
  shows "double_of_real (of_int n) = Finite (of_int n)"
proof (cases "n = 0")
  case True
  then show ?thesis by (simp add: double_of_real_def)
next
  case False
  define x :: real where "x = \<bar>of_int n\<bar>"
  define E where "E = \<lfloor>log 2 x\<rfloor>"
  have x1: "1 \<le> x" using False by (simp add: x_def)
  have x53: "x \<le> 2 ^ 53"
  proof -
    have "real_of_int \<bar>n\<bar> \<le> real_of_int (2 ^ 53)" using assms by (rule of_int_le_iff [THEN iffD2])
    then show ?thesis by (simp add: x_def)
  qed
  have E0: "0 \<le> E" using x1 by (simp add: E_def)
  have "log 2 x \<le> 53" using x1 x53 by (subst log_le_iff) simp_all
  then have E53: "E \<le> 53" by (simp add: E_def floor_le_iff)
  have ulp: "ulp_exponent (of_int n) = E - 52"
    using E0 by (simp add: ulp_exponent_def E_def x_def)
  have "\<exists>k::int. real_of_int n / 2 powi (E - 52) = of_int k"
  proof (cases "E \<le> 52")
    case True
    then have "real_of_int n / 2 powi (E - 52) = of_int n * 2 ^ nat (52 - E)"
      by (simp add: power_int_def field_simps)
    also have "\<dots> = of_int (n * 2 ^ nat (52 - E))" by simp
    finally show ?thesis by blast
  next
    case False
    with E53 have E: "E = 53" by simp
    have "real_of_int E \<le> log 2 x" by (simp add: E_def)
    then have "2 powr 53 \<le> x" using x1 E by (simp add: le_log_iff)
    then have "x = 2 ^ 53" using x53 by simp
    then have "\<bar>n\<bar> = 2 ^ 53"
      unfolding x_def by (metis of_int_abs of_int_eq_iff of_int_numeral of_int_power)
    then have "n = 2 ^ 53 \<or> n = - (2 ^ 53)" by linarith
    then have "real_of_int n / 2 powi (E - 52) = of_int (n div 2)"
      using E by auto
    then show ?thesis by blast
  qed
  then obtain k :: int where k: "real_of_int n / 2 powi (E - 52) = of_int k" by blast
  have "(2::real) powi (E - 52) \<noteq> 0" by simp
  with k have "real_of_int k * 2 powi (E - 52) = real_of_int n"
    by (simp add: field_simps)
  then have r: "of_int (round_to_even (real_of_int n / 2 powi (E - 52))) * 2 powi (E - 52)
      = real_of_int n"
    by (simp add: k)
  have "\<bar>real_of_int n\<bar> < 2 ^ 1024"
    using x53 unfolding x_def by (smt (verit) power_strict_increasing_iff numeral_less_iff
        semiring_norm one_less_numeral_iff)
  then show ?thesis
    using False by (simp add: double_of_real_def ulp Let_def r)
qed

lemma double_of_real_numeral [simp]:
  "numeral w \<le> (2 :: int) ^ 53 \<Longrightarrow> double_of_real (numeral w) = Finite (numeral w)"
  using double_of_real_of_int [of "numeral w"] by simp

lemma double_of_real_1 [simp]: "double_of_real 1 = Finite 1"
  using double_of_real_of_int [of 1] by simp

text \<open>
  A product that is not a double is rounded, and one beyond the largest double is an
  infinity.
\<close>

lemma product_is_rounded:
  "number_times (Finite 9007199254740991) (Finite 3) = Finite 27021597764222972"
  by (simp, subst double_of_real_bracket [where e = 54])
     (simp_all add: round_to_even_def Let_def)

lemma product_overflows:
  "number_times (Finite (2 ^ 1023)) (Finite 2) = PosInfinity"
  by (simp, subst double_of_real_bracket [where e = 1024])
     (simp_all add: round_to_even_def Let_def)
section \<open>Properties of the retry service\<close>

lemma app_error_classified:
  "processError (app_error t m r) =
     Inr \<lparr>type = ErrorType_value t, message = JStr m, details = JUndefined,
          code = JUndefined, retryable = JBool r\<rparr>"
  by (simp add: app_error_def classifier_defs toAppError_def)

lemma default_config [simp]:
  "cfg_maxAttempts (spread_options defaultOptions opts) =
     (case opt_maxAttempts opts of Some n \<Rightarrow> n | None \<Rightarrow> 3)"
  "baseDelay (spread_options defaultOptions opts) =
     (case opt_baseDelay opts of Some x \<Rightarrow> x | None \<Rightarrow> Finite 1000)"
  "backoffMultiplier (spread_options defaultOptions opts) =
     (case opt_backoffMultiplier opts of Some x \<Rightarrow> x | None \<Rightarrow> Finite 2)"
  "retryableErrors (spread_options defaultOptions opts) =
     (case opt_retryableErrors opts of
        Some l \<Rightarrow> l
      | None \<Rightarrow> [NETWORK_ERROR, API_RATE_LIMIT, API_GENERAL_ERROR, UNKNOWN_ERROR])"
  by (simp_all add: spread_options_def defaultOptions_def split: option.splits)

lemma new_EnhancedError_string: "message e = JStr m \<Longrightarrow> new_EnhancedError e = Inr e"
  by (simp add: new_EnhancedError_def)

lemma throw_EnhancedError_string:
  "message e = JStr m \<Longrightarrow> throw_EnhancedError e = Rejected_EnhancedError e"
  by (simp add: throw_EnhancedError_def new_EnhancedError_string)

lemma observers_simps [simp]:
  "invocations [] = 0"
  "invocations (Invoke # evs) = Suc (invocations evs)"
  "invocations (OnRetry a e # evs) = invocations evs"
  "invocations (OnMaxAttemptsReached e # evs) = invocations evs"
  "invocations (Delay d # evs) = invocations evs"
  "invocations (evs @ evs') = invocations evs + invocations evs'"
  "onRetry_calls [] = []"
  "onRetry_calls (Invoke # evs) = onRetry_calls evs"
  "onRetry_calls (OnRetry a e # evs) = (a, e) # onRetry_calls evs"
  "onRetry_calls (OnMaxAttemptsReached e # evs) = onRetry_calls evs"
  "onRetry_calls (Delay d # evs) = onRetry_calls evs"
  "onRetry_calls (evs @ evs') = onRetry_calls evs @ onRetry_calls evs'"
  "onMaxAttemptsReached_calls [] = []"
  "onMaxAttemptsReached_calls (Invoke # evs) = onMaxAttemptsReached_calls evs"
  "onMaxAttemptsReached_calls (OnRetry a e # evs) = onMaxAttemptsReached_calls evs"
  "onMaxAttemptsReached_calls (OnMaxAttemptsReached e # evs) = e # onMaxAttemptsReached_calls evs"
  "onMaxAttemptsReached_calls (Delay d # evs) = onMaxAttemptsReached_calls evs"
  "onMaxAttemptsReached_calls (evs @ evs') =
     onMaxAttemptsReached_calls evs @ onMaxAttemptsReached_calls evs'"
  by (simp_all add: invocations_def onRetry_calls_def onMaxAttemptsReached_calls_def)




text \<open>
  Claim C2. Whatever \<open>maxAttempts \<ge> 1\<close> is, when the first call of the operation rejects
  with a value whose classified error is not retryable under the policy (its flag is off
  or its kind is not in the policy's list), \<^verbatim>\<open>executeWithRetry\<close> does nothing but that
  one call: no delay, no callback, in particular no \<^verbatim>\<open>onMaxAttemptsReached\<close>, and it
  rejects with an EnhancedError that wraps the classified error.
\<close>

theorem non_retryable_short_circuit:
  assumes "1 \<le> cfg_maxAttempts (spread_options defaultOptions opts)"
    and "operation 0 = Rejects x" and "processError x = Inr pe"
    and "\<not> isRetryableError pe (retryableErrors (spread_options defaultOptions opts))"
    and "message pe = JStr m"
  shows "executeWithRetry pow operation opts = ([Invoke], Rejected_EnhancedError pe)"
  unfolding executeWithRetry_def
  using assms by (subst attempt_loop.simps) (simp add: throw_EnhancedError_string)

text \<open>The theorem at an invalid credential with five attempts allowed.\<close>

theorem non_retryable_short_circuit_witness:
  "executeWithRetry correctly_rounded_pow
     (\<lambda>k. Rejects (app_error API_KEY_INVALID ''Invalid API key'' False) :: unit outcome)
     (empty_options\<lparr>opt_maxAttempts := Some 5, onMaxAttemptsReached := True\<rparr>)
   = ([Invoke],
      Rejected_EnhancedError
        \<lparr>type = ErrorType_value API_KEY_INVALID, message = JStr ''Invalid API key'',
         details = JUndefined, code = JUndefined, retryable = JBool False\<rparr>)"
proof -
  let ?opts = "empty_options\<lparr>opt_maxAttempts := Some 5, onMaxAttemptsReached := True\<rparr>"
  let ?x = "app_error API_KEY_INVALID ''Invalid API key'' False"
  let ?pe = "\<lparr>type = ErrorType_value API_KEY_INVALID, message = JStr ''Invalid API key'',
         details = JUndefined, code = JUndefined, retryable = JBool False\<rparr>"
  let ?op = "\<lambda>k::nat. Rejects ?x :: unit outcome"
  have 1: "1 \<le> cfg_maxAttempts (spread_options defaultOptions ?opts)"
    by (simp add: empty_options_def)
  have 2: "?op 0 = Rejects ?x" by simp
  have 3: "processError ?x = Inr ?pe" by (rule app_error_classified)
  have 4: "\<not> isRetryableError ?pe (retryableErrors (spread_options defaultOptions ?opts))"
    by (simp add: isRetryableError_def)
  have 5: "message ?pe = JStr ''Invalid API key''" by simp
  show ?thesis by (rule non_retryable_short_circuit [OF 1 2 3 4 5])
qed








lemma correctly_rounded_powers_of_2 [simp]:
  "correctly_rounded_pow (Finite 2) 1 = Finite 2"
  "correctly_rounded_pow (Finite 2) 2 = Finite 4"
  by simp_all


section \<open>Properties of the retry manager\<close>

lemma fst_execute: "fst (execute out m) = fst (execute_settle out (fst (execute_begin m)))"
  by (simp add: execute_def split: prod.splits)

lemma execute_settle_fields [simp]:
  "options (fst (execute_settle out m)) = options m"
  "retryCallbacks_onRetry (fst (execute_settle out m)) = retryCallbacks_onRetry m"
  "retryCallbacks_onMaxAttemptsReached (fst (execute_settle out m)) =
     retryCallbacks_onMaxAttemptsReached m"
  "attempt (state (fst (execute_settle out m))) = attempt (state m)"
  "maxAttempts (state (fst (execute_settle out m))) = maxAttempts (state m)"
  "nextRetryDelay (state (fst (execute_settle out m))) = nextRetryDelay (state m)"
  "isRetrying (state (fst (execute_settle out m))) = isRetrying (state m)"
  by (simp_all add: execute_settle_def split: outcome.splits sum.splits)

lemma retry_settle_fields [simp]:
  "options (fst (retry_settle out m)) = options m"
  "retryCallbacks_onRetry (fst (retry_settle out m)) = retryCallbacks_onRetry m"
  "retryCallbacks_onMaxAttemptsReached (fst (retry_settle out m)) =
     retryCallbacks_onMaxAttemptsReached m"
  "attempt (state (fst (retry_settle out m))) = attempt (state m)"
  "maxAttempts (state (fst (retry_settle out m))) = maxAttempts (state m)"
  "nextRetryDelay (state (fst (retry_settle out m))) = nextRetryDelay (state m)"
  by (simp_all add: retry_settle_def split: outcome.splits sum.splits)

lemma execute_begin_fields [simp]:
  "options (fst (execute_begin m)) = options m"
  "retryCallbacks_onRetry (fst (execute_begin m)) = retryCallbacks_onRetry m"
  "retryCallbacks_onMaxAttemptsReached (fst (execute_begin m)) =
     retryCallbacks_onMaxAttemptsReached m"
  "state (fst (execute_begin m)) = (state m)\<lparr>attempt := 1, isRetrying := False, lastError := None\<rparr>"
  by (simp_all add: execute_begin_def)

lemma retry_begin_Inr:
  assumes "retry_begin pow m = Inr (m', evs)"
  shows "canRetry m"
    and "m' = m\<lparr>state := (state m)\<lparr>attempt := attempt (state m) + 1, isRetrying := True,
             nextRetryDelay := calculateDelay pow (attempt (state m) + 1) (baseDelay (options m))
                                 (backoffMultiplier (options m))\<rparr>\<rparr>"
  using assms by (auto simp add: retry_begin_def Let_def split: if_splits)

lemma reset_fields [simp]:
  "options (reset m) = options m"
  "retryCallbacks_onRetry (reset m) = retryCallbacks_onRetry m"
  "retryCallbacks_onMaxAttemptsReached (reset m) = retryCallbacks_onMaxAttemptsReached m"
  by (simp_all add: reset_def)

lemma isRetrying_rejects:
  assumes "isRetrying (state m)"
  shows "\<not> canRetry m" and "retry_begin pow m = Inl cannot_retry"
    and "retry pow out m = (m, [], Rejected_Error cannot_retry)"
  using assms by (simp_all add: canRetry_def retry_def retry_begin_def split: option.splits)

text \<open>What no method of the manager changes.\<close>

lemma step_invariant:
  assumes "step pow c s = Some s'"
    and "options (manager s) = cfg
       \<and> retryCallbacks_onRetry (manager s) = r
       \<and> retryCallbacks_onMaxAttemptsReached (manager s) = x
       \<and> maxAttempts (state (manager s)) = cfg_maxAttempts cfg"
  shows "options (manager s') = cfg
       \<and> retryCallbacks_onRetry (manager s') = r
       \<and> retryCallbacks_onMaxAttemptsReached (manager s') = x
       \<and> maxAttempts (state (manager s')) = cfg_maxAttempts cfg"
proof (cases c)
  case Call_execute
  with assms show ?thesis by auto
next
  case Call_retry
  show ?thesis
  proof (cases "retry_begin pow (manager s)")
    case (Inl msg)
    with assms Call_retry show ?thesis by simp
  next
    case (Inr p)
    obtain m' evs where p: "p = (m', evs)" by (cases p)
    from retry_begin_Inr(2) [OF Inr [unfolded p]] assms Call_retry Inr p
    show ?thesis by auto
  qed
next
  case Call_reset
  with assms show ?thesis by (auto simp add: reset_def)
next
  case (Settle_execute out)
  with assms show ?thesis by (auto split: if_splits)
next
  case (Settle_retry out)
  with assms show ?thesis by (auto split: if_splits)
qed

lemma run_invariant:
  assumes "run pow cs s = Some s'"
    and "options (manager s) = cfg
       \<and> retryCallbacks_onRetry (manager s) = r
       \<and> retryCallbacks_onMaxAttemptsReached (manager s) = x
       \<and> maxAttempts (state (manager s)) = cfg_maxAttempts cfg"
  shows "options (manager s') = cfg
       \<and> retryCallbacks_onRetry (manager s') = r
       \<and> retryCallbacks_onMaxAttemptsReached (manager s') = x
       \<and> maxAttempts (state (manager s')) = cfg_maxAttempts cfg"
  using assms
proof (induction cs arbitrary: s)
  case Nil
  then show ?case by simp
next
  case (Cons c cs)
  from Cons.prems(1) obtain s1 where s1: "step pow c s = Some s1" and rest: "run pow cs s1 = Some s'"
    by (auto split: option.splits)
  from Cons.IH [OF rest step_invariant [OF s1 Cons.prems(2)]] show ?case .
qed

lemma reachable_invariant:
  assumes "run pow cs (start opts) = Some s"
  shows "options (manager s) = options (new_RetryManager opts)
       \<and> retryCallbacks_onRetry (manager s) = onRetry opts
       \<and> retryCallbacks_onMaxAttemptsReached (manager s) = onMaxAttemptsReached opts
       \<and> maxAttempts (state (manager s)) = cfg_maxAttempts (options (new_RetryManager opts))"
  by (rule run_invariant [OF assms]) (simp add: start_def new_RetryManager_def Let_def)

text \<open>
  While \<^verbatim>\<open>execute()\<close> and \<^verbatim>\<open>reset()\<close> are called only when no retry is in flight, at most
  one retry is in flight, and \<^verbatim>\<open>isRetrying\<close> is set while it is.
\<close>

lemma step_one_retry:
  assumes "step pow c s = Some s'"
    and "c = Call_execute \<or> c = Call_reset \<longrightarrow> retries_in_flight s = 0"
    and "retries_in_flight s \<le> 1 \<and> (retries_in_flight s = 1 \<longrightarrow> isRetrying (state (manager s)))"
  shows "retries_in_flight s' \<le> 1 \<and> (retries_in_flight s' = 1 \<longrightarrow> isRetrying (state (manager s')))"
proof (cases c)
  case Call_execute
  with assms show ?thesis by auto
next
  case Call_retry
  show ?thesis
  proof (cases "retry_begin pow (manager s)")
    case (Inl msg)
    with assms Call_retry show ?thesis by simp
  next
    case (Inr p)
    obtain m' evs where p: "p = (m', evs)" by (cases p)
    note b = retry_begin_Inr [OF Inr [unfolded p]]
    from b(1) have "\<not> isRetrying (state (manager s))"
      by (auto simp add: canRetry_def split: option.splits)
    with assms(3) have "retries_in_flight s = 0" by auto
    with b(2) assms Call_retry Inr p show ?thesis by auto
  qed
next
  case Call_reset
  with assms show ?thesis by auto
next
  case (Settle_execute out)
  with assms show ?thesis by (auto split: if_splits)
next
  case (Settle_retry out)
  with assms show ?thesis by (auto split: if_splits)
qed

lemma run_one_retry:
  assumes "run pow cs s = Some s'" and "waits_for_retries pow cs s"
    and "retries_in_flight s \<le> 1 \<and> (retries_in_flight s = 1 \<longrightarrow> isRetrying (state (manager s)))"
  shows "retries_in_flight s' \<le> 1 \<and> (retries_in_flight s' = 1 \<longrightarrow> isRetrying (state (manager s')))"
  using assms
proof (induction cs arbitrary: s)
  case Nil
  then show ?case by simp
next
  case (Cons c cs)
  from Cons.prems(1) obtain s1 where s1: "step pow c s = Some s1" and rest: "run pow cs s1 = Some s'"
    by (auto split: option.splits)
  from Cons.prems(2) s1 have w: "c = Call_execute \<or> c = Call_reset \<longrightarrow> retries_in_flight s = 0"
    and ws: "waits_for_retries pow cs s1" by simp_all
  from Cons.IH [OF rest ws step_one_retry [OF s1 w Cons.prems(3)]] show ?case .
qed

lemma reset_restores_initial_state:
  assumes "run pow cs (start opts) = Some s"
  shows "getState (reset (manager s)) = getState (new_RetryManager opts)"
  using reachable_invariant [OF assms]
  by (simp add: getState_def reset_def new_RetryManager_def Let_def)

lemma initial_state:
  "getState (new_RetryManager opts) =
     \<lparr>attempt = 0, maxAttempts = int_or (opt_maxAttempts opts) 3, lastError = None,
      isRetrying = False, nextRetryDelay = number_or (opt_baseDelay opts) (Finite 1000)\<rparr>"
  by (simp add: getState_def new_RetryManager_def Let_def)

lemma failed_execute_state:
  "fst (execute (Rejects (app_error t msg r) :: 'a outcome) m) =
     m\<lparr>state := (state m)\<lparr>attempt := 1, isRetrying := False,
            lastError := Some \<lparr>type = ErrorType_value t, message = JStr msg, details = JUndefined,
                                code = JUndefined, retryable = JBool r\<rparr>\<rparr>\<rparr>"
  by (simp add: execute_def execute_begin_def execute_settle_def app_error_classified)

lemma fst_retry:
  assumes "canRetry m"
  shows "fst (retry pow out m) =
     fst (retry_settle out
       (m\<lparr>state := (state m)\<lparr>attempt := attempt (state m) + 1, isRetrying := True,
             nextRetryDelay := calculateDelay pow (attempt (state m) + 1) (baseDelay (options m))
                                 (backoffMultiplier (options m))\<rparr>\<rparr>))"
  using assms by (simp add: retry_def retry_begin_def Let_def split: prod.splits)

text \<open>
  The policy of a manager is the options it was built for, with the defaults of the
  retry service where an option is absent. The constructor keeps its maximum of
  attempts, base delay and multiplier when they are not zero (nor NaN), and its list
  of kinds always.
\<close>

lemma policy_kept:
  "retryableErrors (options (new_RetryManager opts))
     = retryableErrors (spread_options defaultOptions opts)"
  "cfg_maxAttempts (spread_options defaultOptions opts) \<noteq> 0 \<Longrightarrow>
     cfg_maxAttempts (options (new_RetryManager opts))
       = cfg_maxAttempts (spread_options defaultOptions opts)"
  "number_truthy (baseDelay (spread_options defaultOptions opts)) \<Longrightarrow>
     baseDelay (options (new_RetryManager opts)) = baseDelay (spread_options defaultOptions opts)"
  "number_truthy (backoffMultiplier (spread_options defaultOptions opts)) \<Longrightarrow>
     backoffMultiplier (options (new_RetryManager opts))
       = backoffMultiplier (spread_options defaultOptions opts)"
  by (simp_all add: new_RetryManager_def Let_def spread_options_def defaultOptions_def
        int_or_def number_or_def split: option.splits)

text \<open>
  Claim C7 at a failing input. With \<^verbatim>\<open>baseDelay: 0\<close> the constructor evaluates
  \<^verbatim>\<open>options.baseDelay || 1000\<close>, so the snapshot of the fresh manager has
  \<^verbatim>\<open>nextRetryDelay\<close> 1000 and not the base delay 0 of the policy, whether the manager
  is built directly or through \<^verbatim>\<open>createRetryManager\<close>.
\<close>

theorem fresh_manager_zero_baseDelay:
  "getState (new_RetryManager (empty_options\<lparr>opt_maxAttempts := Some 3, opt_baseDelay := Some (Finite 0)\<rparr>))
     = \<lparr>attempt = 0, maxAttempts = 3, lastError = None, isRetrying = False,
        nextRetryDelay = Finite 1000\<rparr>
   \<and> getState (createRetryManager (empty_options\<lparr>opt_maxAttempts := Some 3, opt_baseDelay := Some (Finite 0)\<rparr>))
     = \<lparr>attempt = 0, maxAttempts = 3, lastError = None, isRetrying = False,
        nextRetryDelay = Finite 1000\<rparr>"
  by (simp add: initial_state createRetryManager_def Let_def int_or_def number_or_def
        empty_options_def spread_options_def defaultOptions_def)

text \<open>
  Claim C10. On a manager fresh from the constructor \<^verbatim>\<open>canRetry()\<close> is false, and
  \<^verbatim>\<open>retry()\<close> rejects with the error \<^verbatim>\<open>Cannot retry: ...\<close>, does not call the operation
  (there is no event at all) and leaves the manager, hence the snapshot of its state, as
  it was.
\<close>

theorem retry_on_fresh_manager_rejects:
  "\<not> canRetry (new_RetryManager opts)
   \<and> retry pow out (new_RetryManager opts) = (new_RetryManager opts, [], Rejected_Error cannot_retry)
   \<and> starts_with cannot_retry ''Cannot retry''"
  by (simp add: retry_def retry_begin_def canRetry_def new_RetryManager_def Let_def
        cannot_retry_def)

lemma after_failed_execute:
  "run pow [Call_execute, Settle_execute (Rejects (app_error t msg r))] (start opts) =
     Some \<lparr>manager = fst (execute (Rejects (app_error t msg r) :: jsval outcome) (new_RetryManager opts)),
           executes_in_flight = 0, retries_in_flight = 0\<rparr>"
  by (simp add: start_def fst_execute)

lemma run_append:
  "run pow (cs @ ds) s = (case run pow cs s of None \<Rightarrow> None | Some s' \<Rightarrow> run pow ds s')"
  by (induction cs arbitrary: s) (simp_all split: option.splits)

lemma waits_for_retries_append:
  "waits_for_retries pow (cs @ ds) s \<longleftrightarrow>
     waits_for_retries pow cs s
     \<and> (case run pow cs s of None \<Rightarrow> True | Some s' \<Rightarrow> waits_for_retries pow ds s')"
  by (induction cs arbitrary: s) (auto split: option.splits)

lemma canRetry_after_failed_execute:
  "canRetry (fst (execute (Rejects (app_error t msg True) :: 'a outcome) (new_RetryManager opts)))
     \<longleftrightarrow> 1 < int_or (opt_maxAttempts opts) 3
        \<and> t \<in> set (retryableErrors (options (new_RetryManager opts)))"
  by (auto simp add: failed_execute_state canRetry_def isRetryableError_def new_RetryManager_def
        Let_def)

text \<open>
  Claim C6, as the code has it. In every state that a manager built for a policy can
  reach, \<^verbatim>\<open>canRetry()\<close> holds exactly when \<^verbatim>\<open>lastError\<close> is not null, \<^verbatim>\<open>attempt\<close> is below
  \<^verbatim>\<open>maxAttempts\<close> (the policy's, when that is not zero), the last error is retryable and
  of a kind in the policy's list, and \<^verbatim>\<open>isRetrying\<close> is false. While \<^verbatim>\<open>isRetrying\<close> is
  set, \<^verbatim>\<open>canRetry()\<close> is false and a \<^verbatim>\<open>retry()\<close> is rejected without touching the manager
  or calling the operation; a \<^verbatim>\<open>retry()\<close> that is accepted sets \<^verbatim>\<open>isRetrying\<close> before it
  calls the operation. As long as \<^verbatim>\<open>execute()\<close> and \<^verbatim>\<open>reset()\<close> are called only when no
  retry is in flight, at most one retry is in flight, and while it is \<^verbatim>\<open>isRetrying\<close> is
  set, \<^verbatim>\<open>canRetry()\<close> is false and a further \<^verbatim>\<open>retry()\<close> is rejected.
\<close>

theorem canRetry_iff:
  assumes "run pow cs (start opts) = Some s"
  shows "(canRetry (manager s) \<longleftrightarrow>
           (\<exists>e. lastError (getState (manager s)) = Some e
              \<and> attempt (getState (manager s)) < maxAttempts (getState (manager s))
              \<and> truthy (retryable e)
              \<and> type e \<in> ErrorType_value ` set (retryableErrors (spread_options defaultOptions opts))
              \<and> \<not> isRetrying (getState (manager s))))
       \<and> (cfg_maxAttempts (spread_options defaultOptions opts) \<noteq> 0 \<longrightarrow>
            maxAttempts (getState (manager s)) = cfg_maxAttempts (spread_options defaultOptions opts))
       \<and> (isRetrying (getState (manager s)) \<longrightarrow>
            \<not> canRetry (manager s)
            \<and> retry pow out (manager s) = (manager s, [], Rejected_Error cannot_retry)
            \<and> step pow Call_retry s = Some s)
       \<and> (\<forall>m' evs. retry_begin pow (manager s) = Inr (m', evs) \<longrightarrow>
            isRetrying (getState m') \<and> \<not> canRetry m'
            \<and> retry pow out m' = (m', [], Rejected_Error cannot_retry))
       \<and> (waits_for_retries pow cs (start opts) \<and> 0 < retries_in_flight s \<longrightarrow>
            retries_in_flight s = 1
            \<and> isRetrying (getState (manager s))
            \<and> \<not> canRetry (manager s)
            \<and> retry pow out (manager s) = (manager s, [], Rejected_Error cannot_retry)
            \<and> step pow Call_retry s = Some s)"
proof -
  note inv = reachable_invariant [OF assms]
  have 1: "canRetry (manager s) \<longleftrightarrow>
           (\<exists>e. lastError (getState (manager s)) = Some e
              \<and> attempt (getState (manager s)) < maxAttempts (getState (manager s))
              \<and> truthy (retryable e)
              \<and> type e \<in> ErrorType_value ` set (retryableErrors (spread_options defaultOptions opts))
              \<and> \<not> isRetrying (getState (manager s)))"
    using inv policy_kept(1) [of opts]
    by (auto simp add: canRetry_def getState_def isRetryableError_def split: option.splits)
  have 2: "maxAttempts (getState (manager s)) = cfg_maxAttempts (spread_options defaultOptions opts)"
    if "cfg_maxAttempts (spread_options defaultOptions opts) \<noteq> 0"
    using inv policy_kept(2) [OF that] by (simp add: getState_def)
  have 3: "\<not> canRetry (manager k) \<and> retry pow out (manager k) = (manager k, [], Rejected_Error cannot_retry)
           \<and> step pow Call_retry k = Some k"
    if "isRetrying (getState (manager k))" for k
  proof -
    from that have "isRetrying (state (manager k))" by (simp add: getState_def)
    from isRetrying_rejects [OF this] show ?thesis by simp
  qed
  have 4: "isRetrying (getState m') \<and> \<not> canRetry m'
           \<and> retry pow out m' = (m', [], Rejected_Error cannot_retry)"
    if "retry_begin pow (manager s) = Inr (m', evs)" for m' evs
  proof -
    from retry_begin_Inr(2) [OF that] have i: "isRetrying (state m')" by simp
    from isRetrying_rejects [OF i] i show ?thesis by (simp add: getState_def)
  qed
  have 5: "retries_in_flight s = 1 \<and> isRetrying (getState (manager s))"
    if "waits_for_retries pow cs (start opts)" "0 < retries_in_flight s"
    using run_one_retry [OF assms that(1)] that(2) by (auto simp add: start_def getState_def)
  from 1 2 3 4 5 show ?thesis by blast
qed

text \<open>The theorem under the default policy: after a failed \<^verbatim>\<open>execute()\<close>, where
  \<^verbatim>\<open>retry()\<close> is accepted, and after that \<^verbatim>\<open>retry()\<close> has called the operation.\<close>

theorem canRetry_iff_witness:
  "\<exists>s1 s2.
     run correctly_rounded_pow
       [Call_execute, Settle_execute (Rejects (app_error NETWORK_ERROR ''Network failed'' True))]
       (start empty_options) = Some s1
     \<and> canRetry (manager s1)
     \<and> cfg_maxAttempts (spread_options defaultOptions empty_options) = 3
     \<and> maxAttempts (getState (manager s1)) = 3
     \<and> (\<exists>evs. retry_begin correctly_rounded_pow (manager s1) = Inr (manager s2, evs))
     \<and> run correctly_rounded_pow
         [Call_execute, Settle_execute (Rejects (app_error NETWORK_ERROR ''Network failed'' True)),
          Call_retry]
         (start empty_options) = Some s2
     \<and> waits_for_retries correctly_rounded_pow
         [Call_execute, Settle_execute (Rejects (app_error NETWORK_ERROR ''Network failed'' True)),
          Call_retry]
         (start empty_options)
     \<and> retries_in_flight s2 = 1
     \<and> isRetrying (getState (manager s2))
     \<and> \<not> canRetry (manager s2)
     \<and> retry correctly_rounded_pow (Resolves JNull) (manager s2)
         = (manager s2, [], Rejected_Error cannot_retry)
     \<and> step correctly_rounded_pow Call_retry s2 = Some s2"
proof -
  let ?fail = "Rejects (app_error NETWORK_ERROR ''Network failed'' True) :: jsval outcome"
  let ?pow = correctly_rounded_pow
  define s1 where "s1 = \<lparr>manager = fst (execute ?fail (new_RetryManager empty_options)),
           executes_in_flight = 0, retries_in_flight = 0\<rparr>"
  have r1: "run ?pow [Call_execute, Settle_execute ?fail] (start empty_options) = Some s1"
    unfolding s1_def by (rule after_failed_execute)
  have c1: "canRetry (manager s1)"
    unfolding s1_def manager_in_use.simps
    by (subst canRetry_after_failed_execute)
       (simp add: new_RetryManager_def Let_def int_or_def empty_options_def)
  then obtain m' evs where b: "retry_begin ?pow (manager s1) = Inr (m', evs)"
    by (simp add: retry_begin_def Let_def)
  define s2 where "s2 = s1\<lparr>manager := m', retries_in_flight := Suc (retries_in_flight s1)\<rparr>"
  have st: "step ?pow Call_retry s1 = Some s2"
    by (simp add: b s2_def)
  have r2: "run ?pow ([Call_execute, Settle_execute ?fail] @ [Call_retry]) (start empty_options) = Some s2"
    by (subst run_append, subst r1) (simp add: b s2_def)
  have w: "waits_for_retries ?pow ([Call_execute, Settle_execute ?fail] @ [Call_retry]) (start empty_options)"
    by (subst waits_for_retries_append, subst r1) (simp add: start_def b)
  have f: "0 < retries_in_flight s2" by (simp add: s2_def)
  have d: "cfg_maxAttempts (spread_options defaultOptions empty_options) = 3"
    by (simp add: spread_options_def defaultOptions_def empty_options_def)
  note at1 = canRetry_iff [OF r1, of "Resolves JNull"]
  note at2 = canRetry_iff [OF r2, of "Resolves JNull"]
  from at1 d have m: "maxAttempts (getState (manager s1)) = 3" by simp
  from at1 b have i: "isRetrying (getState m')" by blast
  have ms: "manager s2 = m'" by (simp add: s2_def)
  from at2 w f have in_flight: "retries_in_flight s2 = 1 \<and> isRetrying (getState (manager s2))
      \<and> \<not> canRetry (manager s2)
      \<and> retry ?pow (Resolves JNull) (manager s2) = (manager s2, [], Rejected_Error cannot_retry)
      \<and> step ?pow Call_retry s2 = Some s2"
    by blast
  from r1 c1 d m b ms r2 w in_flight show ?thesis
    by (intro exI [of _ s1] exI [of _ s2]) auto
qed

text \<open>
  Claim C6 as it is worded fails: \<^verbatim>\<open>execute()\<close> clears \<^verbatim>\<open>isRetrying\<close> whether or not a
  retry is in flight. Under the default policy, after a failed \<^verbatim>\<open>execute()\<close>, a \<^verbatim>\<open>retry()\<close>
  whose call of the operation has not settled, and a second \<^verbatim>\<open>execute()\<close> that failed,
  one retry is in flight, \<^verbatim>\<open>isRetrying\<close> is false and \<^verbatim>\<open>canRetry()\<close> is true; the next
  \<^verbatim>\<open>retry()\<close> is accepted and two retries are in flight.
\<close>

theorem overlapping_retries_counterexample:
  "map_option (\<lambda>s. (retries_in_flight s, isRetrying (getState (manager s)), canRetry (manager s)))
     (run correctly_rounded_pow
        [Call_execute, Settle_execute (Rejects (app_error NETWORK_ERROR ''Network failed'' True)),
         Call_retry,
         Call_execute, Settle_execute (Rejects (app_error NETWORK_ERROR ''Network failed'' True))]
        (start empty_options))
     = Some (1, False, True)
   \<and> map_option (\<lambda>s. (retries_in_flight s, isRetrying (getState (manager s))))
     (run correctly_rounded_pow
        [Call_execute, Settle_execute (Rejects (app_error NETWORK_ERROR ''Network failed'' True)),
         Call_retry,
         Call_execute, Settle_execute (Rejects (app_error NETWORK_ERROR ''Network failed'' True)),
         Call_retry]
        (start empty_options))
     = Some (2, True)"
  by (simp add: start_def new_RetryManager_def Let_def int_or_def number_or_def empty_options_def
        execute_begin_def execute_settle_def app_error_classified retry_begin_def canRetry_def
        isRetryableError_def getState_def)

text \<open>
  Claim C8, as the code has it. For a policy whose base delay and multiplier are not
  zero, a \<^verbatim>\<open>retry()\<close> that is allowed increments \<^verbatim>\<open>attempt\<close> to the number \<open>N\<close> of the
  attempt it runs and stores in \<^verbatim>\<open>nextRetryDelay\<close> the product of the policy's base delay
  and \<^verbatim>\<open>Math.pow(backoffMultiplier, N - 1)\<close>, which in the schedule of the retry service is
  the delay after the failure of attempt \<open>N\<close>, before attempt \<open>N + 1\<close>. After a failed
  \<^verbatim>\<open>execute()\<close> the first \<^verbatim>\<open>retry()\<close> runs attempt 2 and stores the base delay times the
  first power of the multiplier.
\<close>

theorem retry_stores_next_delay:
  assumes "run pow cs (start opts) = Some s"
    and "canRetry (manager s)"
    and "number_truthy (baseDelay (spread_options defaultOptions opts))"
    and "number_truthy (backoffMultiplier (spread_options defaultOptions opts))"
  shows "attempt (getState (fst (retry pow out (manager s)))) = attempt (getState (manager s)) + 1
       \<and> nextRetryDelay (getState (fst (retry pow out (manager s))))
           = number_times (baseDelay (spread_options defaultOptions opts))
               (Math_pow pow (backoffMultiplier (spread_options defaultOptions opts))
                  (attempt (getState (fst (retry pow out (manager s)))) - 1))
       \<and> nextRetryDelay (getState (fst (retry pow out (manager s))))
           = calculateDelay pow (attempt (getState (fst (retry pow out (manager s)))))
               (baseDelay (spread_options defaultOptions opts))
               (backoffMultiplier (spread_options defaultOptions opts))
       \<and> (attempt (getState (manager s)) = 1 \<longrightarrow>
            nextRetryDelay (getState (fst (retry pow out (manager s))))
              = number_times (baseDelay (spread_options defaultOptions opts))
                  (pow (backoffMultiplier (spread_options defaultOptions opts)) 1))
       \<and> (attempt (getState (manager s)) = 1
            \<and> baseDelay (spread_options defaultOptions opts) = Finite b
            \<and> backoffMultiplier (spread_options defaultOptions opts) = Finite m
            \<and> pow (Finite m) 1 = Finite m \<and> is_number (Finite (b * m)) \<longrightarrow>
            nextRetryDelay (getState (fst (retry pow out (manager s)))) = Finite (b * m))"
proof -
  from reachable_invariant [OF assms(1)] policy_kept(3) [OF assms(3)] policy_kept(4) [OF assms(4)]
  have o: "baseDelay (options (manager s)) = baseDelay (spread_options defaultOptions opts)"
    "backoffMultiplier (options (manager s)) = backoffMultiplier (spread_options defaultOptions opts)"
    by simp_all
  show ?thesis
    unfolding fst_retry [OF assms(2)] getState_def
    by (auto simp add: calculateDelay_def Math_pow_def o)
qed

text \<open>The theorem at base delay 1000 and multiplier 2, after a rate-limited
  \<^verbatim>\<open>execute()\<close>.\<close>

theorem retry_stores_next_delay_witness:
  "\<exists>s. run correctly_rounded_pow
         [Call_execute, Settle_execute (Rejects (app_error API_RATE_LIMIT ''Too many requests'' True))]
         (start (empty_options\<lparr>opt_baseDelay := Some (Finite 1000),
                                opt_backoffMultiplier := Some (Finite 2)\<rparr>)) = Some s
     \<and> canRetry (manager s)
     \<and> number_truthy (baseDelay (spread_options defaultOptions
          (empty_options\<lparr>opt_baseDelay := Some (Finite 1000), opt_backoffMultiplier := Some (Finite 2)\<rparr>)))
     \<and> number_truthy (backoffMultiplier (spread_options defaultOptions
          (empty_options\<lparr>opt_baseDelay := Some (Finite 1000), opt_backoffMultiplier := Some (Finite 2)\<rparr>)))
     \<and> attempt (getState (manager s)) = 1
     \<and> correctly_rounded_pow (Finite 2) 1 = Finite 2
     \<and> is_number (Finite (1000 * 2))
     \<and> attempt (getState (fst (retry correctly_rounded_pow (Resolves ()) (manager s)))) = 2
     \<and> nextRetryDelay (getState (fst (retry correctly_rounded_pow (Resolves ()) (manager s))))
         = Finite 2000"
proof -
  let ?opts = "empty_options\<lparr>opt_baseDelay := Some (Finite 1000),
                              opt_backoffMultiplier := Some (Finite 2)\<rparr>"
  let ?fail = "Rejects (app_error API_RATE_LIMIT ''Too many requests'' True) :: jsval outcome"
  let ?pow = correctly_rounded_pow
  define s where "s = \<lparr>manager = fst (execute ?fail (new_RetryManager ?opts)),
           executes_in_flight = 0, retries_in_flight = 0\<rparr>"
  have r: "run ?pow [Call_execute, Settle_execute ?fail] (start ?opts) = Some s"
    unfolding s_def by (rule after_failed_execute)
  have c: "canRetry (manager s)"
    unfolding s_def manager_in_use.simps
    by (subst canRetry_after_failed_execute)
       (simp add: new_RetryManager_def Let_def int_or_def empty_options_def)
  have p: "baseDelay (spread_options defaultOptions ?opts) = Finite 1000"
    "backoffMultiplier (spread_options defaultOptions ?opts) = Finite 2"
    by (simp_all add: spread_options_def defaultOptions_def empty_options_def)
  have t: "number_truthy (baseDelay (spread_options defaultOptions ?opts))"
    "number_truthy (backoffMultiplier (spread_options defaultOptions ?opts))"
    by (simp_all add: p)
  have a: "attempt (getState (manager s)) = 1"
    by (simp add: s_def failed_execute_state getState_def)
  from retry_stores_next_delay [OF r c t, where out = "Resolves ()" and b = 1000 and m = 2] a
  have "attempt (getState (fst (retry ?pow (Resolves ()) (manager s)))) = 2
      \<and> nextRetryDelay (getState (fst (retry ?pow (Resolves ()) (manager s)))) = Finite 2000"
    by (simp add: p Math_pow_def)
  with r c t a show ?thesis by (intro exI [of _ s]) simp
qed

text \<open>
  Claim C8 as it is worded fails: with base delay 1000 and multiplier 2 the first
  \<^verbatim>\<open>retry()\<close> after a failed \<^verbatim>\<open>execute()\<close> stores 2000, not the base delay.
\<close>

theorem first_retry_delay_counterexample:
  "nextRetryDelay (getState (fst (retry correctly_rounded_pow (Resolves ())
        (fst (execute (Rejects (app_error NETWORK_ERROR ''Network failed'' True) :: unit outcome)
               (new_RetryManager (empty_options\<lparr>opt_baseDelay := Some (Finite 1000),
                                                opt_backoffMultiplier := Some (Finite 2)\<rparr>))))))) = Finite 2000
   \<and> attempt (getState (fst (retry correctly_rounded_pow (Resolves ())
        (fst (execute (Rejects (app_error NETWORK_ERROR ''Network failed'' True) :: unit outcome)
               (new_RetryManager (empty_options\<lparr>opt_baseDelay := Some (Finite 1000),
                                                opt_backoffMultiplier := Some (Finite 2)\<rparr>))))))) = 2
   \<and> baseDelay (spread_options defaultOptions (empty_options\<lparr>opt_baseDelay := Some (Finite 1000),
                                                opt_backoffMultiplier := Some (Finite 2)\<rparr>)) = Finite 1000"
  by (simp add: failed_execute_state retry_def retry_begin_def retry_settle_def canRetry_def
        isRetryableError_def new_RetryManager_def Let_def int_or_def number_or_def empty_options_def
        calculateDelay_def Math_pow_def getState_def spread_options_def defaultOptions_def)

end
